theory Spec2Isabelle
  imports Complex_Main "HOL-Library.AList"
begin

section \<open>Runs test above and below the threshold 0.5: the two implementations\<close>

text \<open>
  The repository holds two classes named \<open>RachasEncimaDebajo\<close>: one in
  \<^verbatim>\<open>rachas_encima_debajo.py\<close> (the one \<^verbatim>\<open>main.py\<close> imports) and one in
  \<^verbatim>\<open>prueba_rachas_enc_deb.py\<close>. Names of the first module carry the prefix or suffix
  \<open>red\<close>, names of the second \<open>prd\<close>; the keys of the result dictionaries keep
  their source names.

  Python floats are idealised as \<open>real\<close> (no rounding, no NaN, no infinity); Python's
  unbounded integers are \<open>int\<close>. The symbols \<^verbatim>\<open>'+'\<close> and \<^verbatim>\<open>'-'\<close> are characters, a
  symbol sequence is a \<open>string\<close>.
\<close>

subsection \<open>The standard normal distribution of scipy\<close>

text \<open>
  \<^verbatim>\<open>scipy.stats.norm\<close> is a library outside the repository. The code uses its
  quantile function \<^verbatim>\<open>norm.ppf\<close> and its distribution function \<^verbatim>\<open>norm.cdf\<close>;
  both are a parameter of the model.
\<close>

record scipy_norm =
  ppf :: "real \<Rightarrow> real"
  cdf :: "real \<Rightarrow> real"

text \<open>
  A piecewise linear distribution on \<open>[-2, 2]\<close>, used where a theorem is instantiated
  at a concrete input: its distribution function is \<open>1/2\<close> at \<open>0\<close> and its quantile
  at \<open>0.975\<close> is \<open>1.9\<close>.
\<close>

definition norm_lineal :: scipy_norm where
  "norm_lineal =
     \<lparr>ppf = (\<lambda>p. 4 * (p - 1 / 2)),
      cdf = (\<lambda>x. max 0 (min 1 (1 / 2 + x / 4)))\<rparr>"

subsection \<open>Exceptions and result dictionaries\<close>

datatype excepcion =
    ValueError_vacio         \<comment> \<open>\<^verbatim>\<open>ValueError("El conjunto de datos no puede estar vacio.")\<close>\<close>
  | ZeroDivisionError        \<comment> \<open>integer true division by zero\<close>
  | ValueError_math_domain   \<comment> \<open>\<^verbatim>\<open>math.sqrt\<close> of a negative number\<close>

text \<open>The keys both result dictionaries have.\<close>

record resultado =
  estadistico :: real
  valor_critico :: real
  p_valor :: real
  rechaza_h0 :: bool
  tipo_prueba :: string
  alpha :: real
  n1 :: int
  n2 :: int

text \<open>The result dictionary of \<^verbatim>\<open>rachas_encima_debajo.py\<close>.\<close>

record resultado_red = resultado +
  n_total :: nat
  umbral :: real
  rachas_observadas :: int
  rachas_esperadas :: real
  desviacion_estandar :: real
  secuencia :: string

text \<open>The result dictionary of \<^verbatim>\<open>prueba_rachas_enc_deb.py\<close>.\<close>

record resultado_prd = resultado +
  B :: int
  mu_B :: real
  sigma_B :: real
  total_datos :: nat

text \<open>
  The three \<^verbatim>\<open>{'error': ...}\<close> dictionaries \<^verbatim>\<open>rachas_encima_debajo.py\<close> returns, by
  their message.
\<close>

datatype error_red =
    Error_sin_rachas         \<comment> \<open>no data on one side of the threshold\<close>
  | Error_denominador_cero   \<comment> \<open>denominator of the variance is zero\<close>
  | Error_desviacion_cero    \<comment> \<open>standard deviation is zero\<close>

text \<open>
  The error dictionary of \<^verbatim>\<open>prueba_rachas_enc_deb.py\<close>: \<^verbatim>\<open>'error': True\<close>, the message
  built from the caught exception, the test's name and alpha.
\<close>

record error_prd =
  mensaje :: excepcion
  err_tipo_prueba :: string
  err_alpha :: real

subsection \<open>\<^verbatim>\<open>rachas_encima_debajo.py\<close>\<close>

text \<open>The fields the constructor sets; no method assigns to them afterwards.\<close>

record estado_red =
  red_datos :: "real list"
  red_alpha :: real
  red_n_total :: nat
  red_umbral :: real
  red_secuencia :: string
  red_n1 :: int
  red_n2 :: int
  red_N :: int

text \<open>
  The comprehension of the constructor:
  \<^verbatim>\<open>['+' if dato > self.umbral else '-' for dato in self.datos]\<close>.
\<close>

definition secuencia_red :: "real \<Rightarrow> real list \<Rightarrow> string" where
  "secuencia_red u datos = map (\<lambda>dato. if dato > u then CHR ''+'' else CHR ''-'') datos"

definition init_red :: "real list \<Rightarrow> real \<Rightarrow> excepcion + estado_red" where
  "init_red datos a =
     (if length datos = 0 then Inl ValueError_vacio
      else
        let u = 0.5;
            sec = secuencia_red u datos;
            c1 = int (count_list sec CHR ''+'');
            c2 = int (count_list sec CHR ''-'')
        in Inr \<lparr>red_datos = datos, red_alpha = a, red_n_total = length datos,
                red_umbral = u, red_secuencia = sec,
                red_n1 = c1, red_n2 = c2, red_N = c1 + c2\<rparr>)"

text \<open>\<^verbatim>\<open>for i in range(1, len(self.secuencia))\<close> is a fold over the indices.\<close>

definition contar_rachas :: "string \<Rightarrow> int" where
  "contar_rachas sec =
     (if sec = [] then 0
      else foldl (\<lambda>num_rachas i.
                    if sec ! i \<noteq> sec ! (i - 1) then num_rachas + 1 else num_rachas)
             1 [1..<length sec])"

text \<open>
  \<^verbatim>\<open>ejecutar\<close> reads the fields and assigns to none. \<^verbatim>\<open>np.sqrt\<close> is the real square
  root here: past the first guard the counts are at least 1 and the quotient under the
  root is not negative.
\<close>

definition ejecutar_red :: "scipy_norm \<Rightarrow> estado_red \<Rightarrow> error_red + resultado_red" where
  "ejecutar_red nd s =
     (let R = contar_rachas (red_secuencia s) in
      if red_N s = 0 \<or> red_n1 s = 0 \<or> red_n2 s = 0 then Inl Error_sin_rachas
      else
        let mu_R = real_of_int (2 * red_n1 s * red_n2 s) / real_of_int (red_n1 s + red_n2 s) + 1;
            numerador = 2 * red_n1 s * red_n2 s * (2 * red_n1 s * red_n2 s - red_n1 s - red_n2 s);
            denominador = (red_n1 s + red_n2 s)\<^sup>2 * (red_n1 s + red_n2 s - 1)
        in
        if denominador = 0 then Inl Error_denominador_cero
        else
          let sigma_R_squared = real_of_int numerador / real_of_int denominador;
              sigma_R = sqrt sigma_R_squared
          in
          if sigma_R = 0 then Inl Error_desviacion_cero
          else
            let Z = \<bar>real_of_int R - mu_R\<bar> / sigma_R;
                vc = ppf nd (1 - red_alpha s / 2);
                p = 2 * (1 - cdf nd \<bar>Z\<bar>);
                rechaza = (Z > vc)
            in Inr \<lparr>estadistico = Z, valor_critico = vc, p_valor = p, rechaza_h0 = rechaza,
                    tipo_prueba = ''Rachas Encima/Debajo (Umbral 0.5)'',
                    alpha = red_alpha s, n1 = red_n1 s, n2 = red_n2 s,
                    n_total = red_n_total s, umbral = red_umbral s,
                    rachas_observadas = R, rachas_esperadas = mu_R,
                    desviacion_estandar = sigma_R,
                    secuencia = take 50 (red_secuencia s)
                      @ (if length (red_secuencia s) > 50 then ''...'' else '''')\<rparr>)"

text \<open>
  What \<^verbatim>\<open>main.py\<close> does with the class: construct, then \<^verbatim>\<open>ejecutar\<close>. A failure is
  the exception of the constructor or the error dictionary of \<^verbatim>\<open>ejecutar\<close>.
\<close>

datatype fallo_red = Lanzada excepcion | Dict_error error_red

definition prueba_renc :: "scipy_norm \<Rightarrow> real list \<Rightarrow> real \<Rightarrow> fallo_red + resultado_red" where
  "prueba_renc nd datos a =
     (case init_red datos a of
        Inl e \<Rightarrow> Inl (Lanzada e)
      | Inr s \<Rightarrow> (case ejecutar_red nd s of
                    Inl d \<Rightarrow> Inl (Dict_error d)
                  | Inr r \<Rightarrow> Inr r))"

subsection \<open>\<^verbatim>\<open>prueba_rachas_enc_deb.py\<close>\<close>

text \<open>The instance fields; every step of \<^verbatim>\<open>ejecutar\<close> assigns to some of them.\<close>

record estado_prd =
  prd_datos :: "real list"
  prd_alpha :: real
  prd_numeros :: "real list"
  prd_simbolos :: string
  prd_n1 :: int
  prd_n2 :: int
  prd_grupos :: "(char \<times> nat) list"
  prd_B :: int
  prd_conteo_longitudes :: "(nat \<times> nat) list"
  prd_tabla :: "(nat list \<times> nat list) option"
  prd_mu_B :: real
  prd_sigma2_B :: real
  prd_sigma_B :: real
  prd_z_prueba :: real
  prd_z_teorico :: real
  prd_p_valor :: real

definition init_prd :: "real list \<Rightarrow> real \<Rightarrow> estado_prd" where
  "init_prd datos a =
     \<lparr>prd_datos = datos, prd_alpha = a, prd_numeros = datos,
      prd_simbolos = [], prd_n1 = 0, prd_n2 = 0, prd_grupos = [], prd_B = 0,
      prd_conteo_longitudes = [], prd_tabla = None,
      prd_mu_B = 0, prd_sigma2_B = 0, prd_sigma_B = 0,
      prd_z_prueba = 0, prd_z_teorico = 0, prd_p_valor = 0\<rparr>"

text \<open>
  The comprehension of \<^verbatim>\<open>_convertir_a_simbolos\<close>:
  \<^verbatim>\<open>['+' if x >= 0.5 else '-' for x in self.numeros]\<close>.
\<close>

definition simbolos_prd :: "real list \<Rightarrow> string" where
  "simbolos_prd numeros = map (\<lambda>x. if x \<ge> 0.5 then CHR ''+'' else CHR ''-'') numeros"

definition convertir_a_simbolos :: "estado_prd \<Rightarrow> estado_prd" where
  "convertir_a_simbolos s = s\<lparr>prd_simbolos := simbolos_prd (prd_numeros s)\<rparr>"

definition contar_simbolos :: "estado_prd \<Rightarrow> estado_prd" where
  "contar_simbolos s =
     s\<lparr>prd_n1 := int (count_list (prd_simbolos s) CHR ''+''),
       prd_n2 := int (count_list (prd_simbolos s) CHR ''-'')\<rparr>"

text \<open>
  The loop of \<^verbatim>\<open>_agrupar_simbolos\<close> over \<^verbatim>\<open>range(1, len(self.simbolos))\<close>; its state
  is \<^verbatim>\<open>(self.grupos, self.B, simbolo_actual, longitud)\<close>.
\<close>

definition agrupar_paso ::
  "string \<Rightarrow> (char \<times> nat) list \<times> int \<times> char \<times> nat \<Rightarrow> nat
     \<Rightarrow> (char \<times> nat) list \<times> int \<times> char \<times> nat" where
  "agrupar_paso sim st i =
     (case st of (gs, b, simbolo_actual, longitud) \<Rightarrow>
        if sim ! i = simbolo_actual then (gs, b, simbolo_actual, longitud + 1)
        else (gs @ [(simbolo_actual, longitud)], b + 1, sim ! i, 1))"

definition agrupar_simbolos :: "estado_prd \<Rightarrow> estado_prd" where
  "agrupar_simbolos s =
     (if prd_simbolos s = [] then s
      else
        case foldl (agrupar_paso (prd_simbolos s)) ([], 0, prd_simbolos s ! 0, 1)
               [1..<length (prd_simbolos s)] of
          (gs, b, simbolo_actual, longitud) \<Rightarrow>
            s\<lparr>prd_grupos := gs @ [(simbolo_actual, longitud)], prd_B := b + 1\<rparr>)"

text \<open>
  \<^verbatim>\<open>conteo_longitudes\<close> is a \<^verbatim>\<open>defaultdict(int)\<close>: an association list in insertion
  order, a missing key counting as 0.
\<close>

definition contar_longitudes :: "estado_prd \<Rightarrow> estado_prd" where
  "contar_longitudes s =
     s\<lparr>prd_conteo_longitudes :=
         foldl (\<lambda>c (_, longitud).
                  AList.update longitud
                    ((case map_of c longitud of None \<Rightarrow> 0 | Some k \<Rightarrow> k) + 1) c)
           [] (prd_grupos s)\<rparr>"

text \<open>The two columns \<^verbatim>\<open>LONGITUD\<close> and \<^verbatim>\<open>TOTAL\<close> of the data frame.\<close>

definition crear_tabla :: "estado_prd \<Rightarrow> estado_prd" where
  "crear_tabla s =
     (let ks = sort (map fst (prd_conteo_longitudes s)) in
      s\<lparr>prd_tabla :=
          Some (ks, map (\<lambda>k. case map_of (prd_conteo_longitudes s) k of
                               None \<Rightarrow> 0 | Some v \<Rightarrow> v) ks)\<rparr>)"

text \<open>
  \<^verbatim>\<open>_calcular_estadisticos\<close> assigns field by field; an exception leaves the fields
  assigned so far. The result is the exception raised, if any, and the state.
\<close>

definition calcular_estadisticos :: "scipy_norm \<Rightarrow> estado_prd \<Rightarrow> excepcion option \<times> estado_prd" where
  "calcular_estadisticos nd s =
     (if prd_n1 s + prd_n2 s = 0 then (Some ZeroDivisionError, s)
      else
        let s1 = s\<lparr>prd_mu_B :=
                     real_of_int (2 * prd_n1 s * prd_n2 s) / real_of_int (prd_n1 s + prd_n2 s) + 1\<rparr>
        in
        if (prd_n1 s + prd_n2 s)\<^sup>2 * (prd_n1 s + prd_n2 s - 1) = 0
        then (Some ZeroDivisionError, s1)
        else
          let s2 = s1\<lparr>prd_sigma2_B :=
                        real_of_int (2 * prd_n1 s * prd_n2 s * (2 * prd_n1 s * prd_n2 s - prd_n1 s - prd_n2 s))
                        / real_of_int ((prd_n1 s + prd_n2 s)\<^sup>2 * (prd_n1 s + prd_n2 s - 1))\<rparr>
          in
          if prd_sigma2_B s2 < 0 then (Some ValueError_math_domain, s2)
          else
            let s3 = s2\<lparr>prd_sigma_B := sqrt (prd_sigma2_B s2)\<rparr>;
                s4 = s3\<lparr>prd_z_prueba :=
                          (if prd_sigma_B s3 \<noteq> 0
                           then \<bar>(real_of_int (prd_B s3) - prd_mu_B s3) / prd_sigma_B s3\<bar>
                           else 0)\<rparr>;
                s5 = s4\<lparr>prd_z_teorico := ppf nd (1 - prd_alpha s4 / 2)\<rparr>;
                s6 = s5\<lparr>prd_p_valor := 2 * (1 - cdf nd \<bar>prd_z_prueba s5\<bar>)\<rparr>
            in (None, s6))"

definition evaluar_hipotesis :: "estado_prd \<Rightarrow> resultado_prd" where
  "evaluar_hipotesis s =
     (let rechaza = (\<bar>prd_z_prueba s\<bar> > prd_z_teorico s) in
      \<lparr>estadistico = prd_z_prueba s, valor_critico = prd_z_teorico s,
       p_valor = prd_p_valor s, rechaza_h0 = rechaza,
       tipo_prueba = ''Prueba de Rachas'', alpha = prd_alpha s,
       n1 = prd_n1 s, n2 = prd_n2 s,
       B = prd_B s, mu_B = prd_mu_B s, sigma_B = prd_sigma_B s,
       total_datos = length (prd_numeros s)\<rparr>)"

text \<open>
  \<^verbatim>\<open>ejecutar\<close>: the seven steps inside \<^verbatim>\<open>try\<close>; \<^verbatim>\<open>except Exception\<close> turns an
  exception into the error dictionary. The object after the call is returned too.
\<close>

definition ejecutar_prd ::
  "scipy_norm \<Rightarrow> estado_prd \<Rightarrow> (error_prd + resultado_prd) \<times> estado_prd" where
  "ejecutar_prd nd s =
     (let s1 = convertir_a_simbolos s;
          s2 = contar_simbolos s1;
          s3 = agrupar_simbolos s2;
          s4 = contar_longitudes s3;
          s5 = crear_tabla s4
      in case calcular_estadisticos nd s5 of
           (None, s6) \<Rightarrow> (Inr (evaluar_hipotesis s6), s6)
         | (Some e, s6) \<Rightarrow>
             (Inl \<lparr>mensaje = e, err_tipo_prueba = ''Prueba de Rachas'',
                   err_alpha = prd_alpha s6\<rparr>, s6))"

text \<open>Construct, then \<^verbatim>\<open>ejecutar\<close>, keeping the dictionary returned.\<close>

definition prueba_prd :: "scipy_norm \<Rightarrow> real list \<Rightarrow> real \<Rightarrow> error_prd + resultado_prd" where
  "prueba_prd nd datos a = fst (ejecutar_prd nd (init_prd datos a))"

subsection \<open>Notions of the specification\<close>

text \<open>
  Expanding a list of runs back to symbols: each symbol repeated by its run length, in run
  order.
\<close>

definition expandir :: "(char \<times> nat) list \<Rightarrow> string" where
  "expandir gs = concat (map (\<lambda>(simbolo, longitud). replicate longitud simbolo) gs)"

text \<open>The number of maximal runs of a symbol sequence.\<close>

definition num_rachas :: "string \<Rightarrow> int" where
  "num_rachas sec = int (length (remdups_adj sec))"

text \<open>The expected number of runs and its variance, as the specification writes them.\<close>

definition spec_mu_B :: "int \<Rightarrow> int \<Rightarrow> real" where
  "spec_mu_B m1 m2 = 2 * real_of_int m1 * real_of_int m2 / (real_of_int m1 + real_of_int m2) + 1"

definition spec_sigma2_B :: "int \<Rightarrow> int \<Rightarrow> real" where
  "spec_sigma2_B m1 m2 =
     2 * real_of_int m1 * real_of_int m2
       * (2 * real_of_int m1 * real_of_int m2 - real_of_int m1 - real_of_int m2)
     / ((real_of_int m1 + real_of_int m2)\<^sup>2 * (real_of_int m1 + real_of_int m2 - 1))"

text \<open>
  The fields of a result that the specification of the runs test fixes, for symbol counts
  \<open>m1\<close>, \<open>m2\<close> and \<open>b\<close> runs at significance level \<open>a\<close>.
\<close>

definition cumple_formulas ::
  "scipy_norm \<Rightarrow> real \<Rightarrow> int \<Rightarrow> int \<Rightarrow> int \<Rightarrow> 'a resultado_scheme \<Rightarrow> bool" where
  "cumple_formulas nd a m1 m2 b r \<longleftrightarrow>
     n1 r = m1 \<and> n2 r = m2
     \<and> estadistico r = \<bar>real_of_int b - spec_mu_B m1 m2\<bar> / sqrt (spec_sigma2_B m1 m2)
     \<and> valor_critico r = ppf nd (1 - a / 2)
     \<and> p_valor r = 2 * (1 - cdf nd \<bar>estadistico r\<bar>)
     \<and> rechaza_h0 r = (estadistico r > valor_critico r)"

text \<open>The alternating sequence \<open>0.1, 0.9, 0.1, 0.9, ...\<close> of length \<open>n\<close>.\<close>

definition alternante :: "nat \<Rightarrow> real list" where
  "alternante n = map (\<lambda>i. if even i then 0.1 else 0.9) [0..<n]"

section \<open>Counting runs\<close>

text \<open>
  Both loops run over the indices \<open>1, ..., n - 1\<close>; what they count is the number of
  indices whose symbol differs from the one before.
\<close>

lemma foldl_contar:
  "foldl (\<lambda>num i. if P i then num + 1 else num) (a::int) xs = a + int (length (filter P xs))"
  by (induction xs arbitrary: a) auto

lemma contar_rachas_filter:
  "sec \<noteq> [] \<Longrightarrow>
   contar_rachas sec = 1 + int (length (filter (\<lambda>i. sec ! i \<noteq> sec ! (i - 1)) [1..<length sec]))"
  by (simp add: contar_rachas_def foldl_contar)

lemma length_filter_upt_card:
  "length (filter P [1..<n]) = card {i. 0 < i \<and> i < n \<and> P i}"
proof -
  have "{i. 0 < i \<and> i < n \<and> P i} = set (filter P [1..<n])"
    by auto
  moreover have "distinct (filter P [1..<n])"
    by simp
  ultimately show ?thesis
    by (simp only: distinct_card)
qed

lemma remdups_adj_take_filter:
  "k < length sec \<Longrightarrow>
   length (remdups_adj (take (Suc k) sec))
     = 1 + length (filter (\<lambda>i. sec ! i \<noteq> sec ! (i - 1)) [1..<Suc k])"
proof (induction k)
  case 0
  then show ?case by (cases sec) auto
next
  case (Suc k)
  then have k: "k < length sec" by simp
  have "take (Suc (Suc k)) sec = take k sec @ [sec ! k, sec ! Suc k]"
    using Suc.prems k by (simp add: take_Suc_conv_app_nth)
  then have "remdups_adj (take (Suc (Suc k)) sec)
      = remdups_adj (take (Suc k) sec) @ (if sec ! k = sec ! Suc k then [] else [sec ! Suc k])"
    using k by (simp add: remdups_adj_append_two take_Suc_conv_app_nth)
  with Suc.IH [OF k] show ?case by auto
qed

lemma length_remdups_adj_filter:
  "sec \<noteq> [] \<Longrightarrow>
   length (remdups_adj sec)
     = 1 + length (filter (\<lambda>i. sec ! i \<noteq> sec ! (i - 1)) [1..<length sec])"
  using remdups_adj_take_filter [of "length sec - 1" sec] by (cases sec) auto

text \<open>
  The invariant of the loop of \<^verbatim>\<open>_agrupar_simbolos\<close> after index \<open>k\<close>: the current
  symbol is the one at \<open>k\<close>, the closed groups followed by the open one expand to the
  first \<open>k + 1\<close> symbols, and \<open>B\<close> counts the closed groups.
\<close>

lemma agrupar_invariante:
  "k < length sim \<Longrightarrow>
   foldl (agrupar_paso sim) ([], 0, sim ! 0, 1) [1..<Suc k] = (gs, b, c, l) \<Longrightarrow>
   c = sim ! k \<and> 0 < l \<and> expandir gs @ replicate l c = take (Suc k) sim
     \<and> b = int (length (filter (\<lambda>i. sim ! i \<noteq> sim ! (i - 1)) [1..<Suc k]))
     \<and> int (length gs) = b \<and> (\<forall>g\<in>set gs. 0 < snd g)"
proof (induction k arbitrary: gs b c l)
  case 0
  then show ?case by (cases sim) (auto simp: expandir_def)
next
  case (Suc k)
  obtain gs' b' c' l' where f: "foldl (agrupar_paso sim) ([], 0, sim ! 0, 1) [1..<Suc k] = (gs', b', c', l')"
    by (metis prod_cases4)
  from Suc.prems have k: "k < length sim" by simp
  from Suc.IH [OF k f] have ih: "c' = sim ! k" "0 < l'"
      "expandir gs' @ replicate l' c' = take (Suc k) sim"
      "b' = int (length (filter (\<lambda>i. sim ! i \<noteq> sim ! (i - 1)) [1..<Suc k]))"
      "int (length gs') = b'" "\<forall>g\<in>set gs'. 0 < snd g"
    by blast+
  have step: "(gs, b, c, l) = agrupar_paso sim (gs', b', c', l') (Suc k)"
    using Suc.prems(2) f by simp
  have tk: "take (Suc (Suc k)) sim = take (Suc k) sim @ [sim ! Suc k]"
    using Suc.prems(1) by (simp add: take_Suc_conv_app_nth)
  show ?case
  proof (cases "sim ! Suc k = c'")
    case True
    with step have "gs = gs'" "b = b'" "c = c'" "l = l' + 1"
      by (simp_all add: agrupar_paso_def)
    moreover have "replicate (l' + 1) c' = replicate l' c' @ [c']"
      by (simp add: replicate_append_same)
    moreover have "filter (\<lambda>i. sim ! i \<noteq> sim ! (i - 1)) [1..<Suc (Suc k)]
        = filter (\<lambda>i. sim ! i \<noteq> sim ! (i - 1)) [1..<Suc k]"
      using True ih by simp
    ultimately show ?thesis
      using ih True tk by (simp del: upt_Suc replicate.simps replicate_Suc)
  next
    case False
    with step have "gs = gs' @ [(c', l')]" "b = b' + 1" "c = sim ! Suc k" "l = 1"
      by (simp_all add: agrupar_paso_def)
    moreover have "filter (\<lambda>i. sim ! i \<noteq> sim ! (i - 1)) [1..<Suc (Suc k)]
        = filter (\<lambda>i. sim ! i \<noteq> sim ! (i - 1)) [1..<Suc k] @ [Suc k]"
      using False ih by simp
    ultimately show ?thesis
      using ih False tk by (simp add: expandir_def del: upt_Suc)
  qed
qed

lemma contar_rachas_num_rachas: "contar_rachas sec = num_rachas sec"
  by (cases "sec = []")
     (simp_all add: contar_rachas_filter length_remdups_adj_filter num_rachas_def,
      simp add: contar_rachas_def)

subsection \<open>The variance of the number of runs\<close>

lemma producto_cota:
  fixes m1 m2 :: int
  assumes "1 \<le> m1" "1 \<le> m2"
  shows "m1 + m2 \<le> m1 * m2 + 1"
proof -
  have "0 \<le> (m1 - 1) * (m2 - 1)"
    using assms by simp
  then show ?thesis
    by (simp add: algebra_simps)
qed

lemma numerador_pos:
  fixes m1 m2 :: int
  assumes "1 \<le> m1" "1 \<le> m2" "3 \<le> m1 + m2"
  shows "0 < 2 * m1 * m2 * (2 * m1 * m2 - m1 - m2)"
proof -
  have c: "m1 + m2 \<le> m1 * m2 + 1"
    using assms by (simp add: producto_cota)
  have p: "0 < m1 * m2"
    using assms by simp
  have "0 < 2 * m1 * m2 - m1 - m2"
    using c assms(3) by simp
  moreover have "0 < 2 * m1 * m2"
    using p by simp
  ultimately show ?thesis
    by (simp only: mult_pos_pos)
qed

lemma numerador_nonneg:
  fixes m1 m2 :: int
  assumes "0 \<le> m1" "0 \<le> m2"
  shows "0 \<le> 2 * m1 * m2 * (2 * m1 * m2 - m1 - m2)"
proof (cases "m1 = 0 \<or> m2 = 0")
  case True
  then show ?thesis by auto
next
  case False
  with assms have h: "1 \<le> m1" "1 \<le> m2" by simp_all
  then have "m1 + m2 \<le> m1 * m2 + 1" by (rule producto_cota)
  moreover have "1 * 1 \<le> m1 * m2"
    by (rule mult_mono) (use h in simp_all)
  ultimately have "0 \<le> 2 * m1 * m2 - m1 - m2" by simp
  moreover have "0 \<le> 2 * m1 * m2" using assms by simp
  ultimately show ?thesis by (simp only: mult_nonneg_nonneg)
qed

lemma denominador_pos:
  fixes m1 m2 :: int
  assumes "2 \<le> m1 + m2"
  shows "0 < (m1 + m2)\<^sup>2 * (m1 + m2 - 1)"
  using assms by simp

lemma sigma2_forma:
  "real_of_int (2 * m1 * m2 * (2 * m1 * m2 - m1 - m2)) / real_of_int ((m1 + m2)\<^sup>2 * (m1 + m2 - 1))
     = spec_sigma2_B m1 m2"
  by (simp add: spec_sigma2_B_def)

lemma mu_forma:
  "real_of_int (2 * m1 * m2) / real_of_int (m1 + m2) + 1 = spec_mu_B m1 m2"
  by (simp add: spec_mu_B_def)

lemma sigma2_pos:
  assumes "1 \<le> m1" "1 \<le> m2" "3 \<le> m1 + m2"
  shows "0 < spec_sigma2_B m1 m2"
proof -
  have "0 < real_of_int (2 * m1 * m2 * (2 * m1 * m2 - m1 - m2))"
    using numerador_pos [OF assms] by (simp only: of_int_0_less_iff)
  moreover have "0 < real_of_int ((m1 + m2)\<^sup>2 * (m1 + m2 - 1))"
  proof -
    have "2 \<le> m1 + m2" using assms by simp
    from denominador_pos [OF this] show ?thesis by (simp only: of_int_0_less_iff)
  qed
  ultimately show ?thesis
    unfolding sigma2_forma [symmetric] by (simp only: divide_pos_pos)
qed


lemma expandir_snoc: "expandir (gs @ [(c, l)]) = expandir gs @ replicate l c"
  by (simp add: expandir_def)

lemma length_filter_upt_le: "length (filter P [1..<n]) \<le> n - 1"
  using length_filter_le [of P "[1..<n]"] by simp

lemma agrupar_simbolos_resultado:
  assumes "prd_simbolos s \<noteq> []"
  shows "expandir (prd_grupos (agrupar_simbolos s)) = prd_simbolos s"
    and "prd_B (agrupar_simbolos s)
          = 1 + int (length (filter (\<lambda>i. prd_simbolos s ! i \<noteq> prd_simbolos s ! (i - 1))
                               [1..<length (prd_simbolos s)]))"
    and "int (length (prd_grupos (agrupar_simbolos s))) = prd_B (agrupar_simbolos s)"
    and "\<forall>g\<in>set (prd_grupos (agrupar_simbolos s)). 0 < snd g"
proof -
  let ?sim = "prd_simbolos s"
  obtain gs b c l where
    f: "foldl (agrupar_paso ?sim) ([], 0, ?sim ! 0, 1) [1..<length ?sim] = (gs, b, c, l)"
    by (metis prod_cases4)
  have n: "length ?sim - 1 < length ?sim" "Suc (length ?sim - 1) = length ?sim"
    using assms by (cases ?sim; simp)+
  from agrupar_invariante [OF n(1), of gs b c l, unfolded n(2), OF f]
  have inv: "c = ?sim ! (length ?sim - 1)" "0 < l"
      "expandir gs @ replicate l c = ?sim"
      "b = int (length (filter (\<lambda>i. ?sim ! i \<noteq> ?sim ! (i - 1)) [1..<length ?sim]))"
      "int (length gs) = b" "\<forall>g\<in>set gs. 0 < snd g"
    by auto
  have r: "agrupar_simbolos s = s\<lparr>prd_grupos := gs @ [(c, l)], prd_B := b + 1\<rparr>"
    using assms f by (simp add: agrupar_simbolos_def)
  show "expandir (prd_grupos (agrupar_simbolos s)) = prd_simbolos s"
    using inv(3) by (simp add: r expandir_snoc)
  show "prd_B (agrupar_simbolos s)
          = 1 + int (length (filter (\<lambda>i. ?sim ! i \<noteq> ?sim ! (i - 1)) [1..<length ?sim]))"
    using inv(4) by (simp add: r)
  show "int (length (prd_grupos (agrupar_simbolos s))) = prd_B (agrupar_simbolos s)"
    using inv(5) by (simp add: r)
  show "\<forall>g\<in>set (prd_grupos (agrupar_simbolos s)). 0 < snd g"
    using inv(2,6) by (simp add: r)
qed

lemma agrupar_simbolos_otros:
  "prd_simbolos (agrupar_simbolos s) = prd_simbolos s"
  "prd_numeros (agrupar_simbolos s) = prd_numeros s"
  "prd_datos (agrupar_simbolos s) = prd_datos s"
  "prd_alpha (agrupar_simbolos s) = prd_alpha s"
  "prd_n1 (agrupar_simbolos s) = prd_n1 s"
  "prd_n2 (agrupar_simbolos s) = prd_n2 s"
  by (simp_all add: agrupar_simbolos_def split: prod.splits)

section \<open>The run grouper\<close>



text \<open>
  Claim C9: for every non-empty symbol sequence of length \<open>n\<close>, the number of runs that
  \<^verbatim>\<open>_contar_rachas\<close> counts and the \<open>B\<close> that \<^verbatim>\<open>_agrupar_simbolos\<close> counts are both
  1 plus the number of positions \<open>i\<close> whose symbol differs from the one at \<open>i - 1\<close>, and
  both lie between 1 and \<open>n\<close>.
\<close>

theorem numero_de_rachas:
  assumes "sec \<noteq> []" and "prd_simbolos s = sec"
  shows "contar_rachas sec
           = 1 + int (card {i. 0 < i \<and> i < length sec \<and> sec ! i \<noteq> sec ! (i - 1)})
       \<and> 1 \<le> contar_rachas sec \<and> contar_rachas sec \<le> int (length sec)
       \<and> prd_B (agrupar_simbolos s)
           = 1 + int (card {i. 0 < i \<and> i < length sec \<and> sec ! i \<noteq> sec ! (i - 1)})
       \<and> 1 \<le> prd_B (agrupar_simbolos s) \<and> prd_B (agrupar_simbolos s) \<le> int (length sec)"
proof -
  let ?P = "\<lambda>i. sec ! i \<noteq> sec ! (i - 1)"
  have c: "contar_rachas sec = 1 + int (length (filter ?P [1..<length sec]))"
    using assms(1) by (rule contar_rachas_filter)
  have b: "prd_B (agrupar_simbolos s) = 1 + int (length (filter ?P [1..<length sec]))"
    using agrupar_simbolos_resultado(2) [of s] assms by simp
  have k: "length (filter ?P [1..<length sec])
             = card {i. 0 < i \<and> i < length sec \<and> sec ! i \<noteq> sec ! (i - 1)}"
    by (rule length_filter_upt_card)
  have le: "length (filter ?P [1..<length sec]) \<le> length sec - 1"
    by (rule length_filter_upt_le)
  have "0 < length sec"
    using assms(1) by simp
  with le have "length (filter ?P [1..<length sec]) + 1 \<le> length sec"
    by linarith
  then have "1 + int (length (filter ?P [1..<length sec])) \<le> int (length sec)"
    by linarith
  then show ?thesis
    using c b unfolding k [symmetric] by simp
qed

theorem numero_de_rachas_witness:
  "contar_rachas ''++-+'' = 3 \<and> prd_B (agrupar_simbolos (convertir_a_simbolos (init_prd [0.9, 0.7, 0.1, 0.6] 0.05))) = 3
   \<and> card {i. 0 < i \<and> i < length ''++-+'' \<and> ''++-+'' ! i \<noteq> ''++-+'' ! (i - 1)} = 2"
  using numero_de_rachas [of "''++-+''" "convertir_a_simbolos (init_prd [0.9, 0.7, 0.1, 0.6] 0.05)"]
  by (simp add: convertir_a_simbolos_def init_prd_def simbolos_prd_def contar_rachas_def)

subsection \<open>Symbol counts\<close>

lemma count_list_map_if:
  "c \<noteq> d \<Longrightarrow>
   count_list (map (\<lambda>x. if P x then c else d) xs) c
     + count_list (map (\<lambda>x. if P x then c else d) xs) d = length xs"
  by (induction xs) auto

lemma count_secuencia_red:
  "count_list (secuencia_red u datos) CHR ''+'' + count_list (secuencia_red u datos) CHR ''-''
     = length datos"
  unfolding secuencia_red_def by (rule count_list_map_if) simp

lemma count_simbolos_prd:
  "count_list (simbolos_prd numeros) CHR ''+'' + count_list (simbolos_prd numeros) CHR ''-''
     = length numeros"
  unfolding simbolos_prd_def by (rule count_list_map_if) simp

subsection \<open>\<^verbatim>\<open>rachas_encima_debajo.py\<close>: the result on non-degenerate counts\<close>

lemma ejecutar_red_formulas:
  assumes "1 \<le> red_n1 s" "1 \<le> red_n2 s" "3 \<le> red_n1 s + red_n2 s"
    and "red_N s = red_n1 s + red_n2 s"
  shows "\<exists>r. ejecutar_red nd s = Inr r
           \<and> cumple_formulas nd (red_alpha s) (red_n1 s) (red_n2 s) (num_rachas (red_secuencia s)) r
           \<and> rachas_observadas r = num_rachas (red_secuencia s)
           \<and> rachas_esperadas r = spec_mu_B (red_n1 s) (red_n2 s)
           \<and> desviacion_estandar r = sqrt (spec_sigma2_B (red_n1 s) (red_n2 s))
           \<and> alpha r = red_alpha s"
proof -
  let ?m1 = "red_n1 s" and ?m2 = "red_n2 s"
  have g1: "\<not> (red_N s = 0 \<or> ?m1 = 0 \<or> ?m2 = 0)"
    using assms by simp
  have "2 \<le> ?m1 + ?m2"
    using assms by simp
  then have g2: "(?m1 + ?m2)\<^sup>2 * (?m1 + ?m2 - 1) \<noteq> 0"
    using denominador_pos [of ?m1 ?m2] by simp
  have pos: "0 < spec_sigma2_B ?m1 ?m2"
    using assms(1-3) by (rule sigma2_pos)
  then have g3: "sqrt (spec_sigma2_B ?m1 ?m2) \<noteq> 0"
    by simp
  have zpos: "0 \<le> \<bar>real_of_int (num_rachas (red_secuencia s)) - spec_mu_B ?m1 ?m2\<bar>
                    / sqrt (spec_sigma2_B ?m1 ?m2)"
    using pos by simp
  show ?thesis
    unfolding ejecutar_red_def Let_def mu_forma sigma2_forma contar_rachas_num_rachas
    using g1 g2 g3 zpos by (simp add: cumple_formulas_def)
qed

lemma ejecutar_red_degenerado:
  "red_n1 s = 0 \<or> red_n2 s = 0 \<Longrightarrow> ejecutar_red nd s = Inl Error_sin_rachas"
  by (auto simp: ejecutar_red_def Let_def)

lemma ejecutar_red_uno_y_uno:
  assumes "red_n1 s = 1" "red_n2 s = 1" "red_N s = 2"
  shows "ejecutar_red nd s = Inl Error_desviacion_cero"
  using assms by (simp add: ejecutar_red_def Let_def)

lemma init_red_campos:
  assumes "datos \<noteq> []"
  shows "\<exists>s. init_red datos a = Inr s
           \<and> red_secuencia s = secuencia_red 0.5 datos
           \<and> red_n1 s = int (count_list (secuencia_red 0.5 datos) CHR ''+'')
           \<and> red_n2 s = int (count_list (secuencia_red 0.5 datos) CHR ''-'')
           \<and> red_N s = red_n1 s + red_n2 s
           \<and> red_alpha s = a \<and> red_datos s = datos \<and> red_n_total s = length datos"
  using assms by (simp add: init_red_def Let_def)

subsection \<open>\<^verbatim>\<open>prueba_rachas_enc_deb.py\<close>: the steps of \<^verbatim>\<open>ejecutar\<close>\<close>

lemma pasos_campos:
  fixes s :: estado_prd
  defines "s5 \<equiv> crear_tabla (contar_longitudes (agrupar_simbolos
                    (contar_simbolos (convertir_a_simbolos s))))"
  shows "prd_n1 s5 = int (count_list (simbolos_prd (prd_numeros s)) CHR ''+'')"
    and "prd_n2 s5 = int (count_list (simbolos_prd (prd_numeros s)) CHR ''-'')"
    and "prd_alpha s5 = prd_alpha s"
    and "prd_numeros s5 = prd_numeros s"
    and "prd_datos s5 = prd_datos s"
    and "prd_numeros s \<noteq> [] \<Longrightarrow> prd_B s5 = num_rachas (simbolos_prd (prd_numeros s))"
proof -
  let ?s2 = "contar_simbolos (convertir_a_simbolos s)"
  have sim: "prd_simbolos ?s2 = simbolos_prd (prd_numeros s)"
    by (simp add: contar_simbolos_def convertir_a_simbolos_def)
  show "prd_n1 s5 = int (count_list (simbolos_prd (prd_numeros s)) CHR ''+'')"
    by (simp add: s5_def crear_tabla_def contar_longitudes_def agrupar_simbolos_otros
          contar_simbolos_def convertir_a_simbolos_def Let_def)
  show "prd_n2 s5 = int (count_list (simbolos_prd (prd_numeros s)) CHR ''-'')"
    by (simp add: s5_def crear_tabla_def contar_longitudes_def agrupar_simbolos_otros
          contar_simbolos_def convertir_a_simbolos_def Let_def)
  show "prd_alpha s5 = prd_alpha s"
    by (simp add: s5_def crear_tabla_def contar_longitudes_def agrupar_simbolos_otros
          contar_simbolos_def convertir_a_simbolos_def Let_def)
  show "prd_numeros s5 = prd_numeros s"
    by (simp add: s5_def crear_tabla_def contar_longitudes_def agrupar_simbolos_otros
          contar_simbolos_def convertir_a_simbolos_def Let_def)
  show "prd_datos s5 = prd_datos s"
    by (simp add: s5_def crear_tabla_def contar_longitudes_def agrupar_simbolos_otros
          contar_simbolos_def convertir_a_simbolos_def Let_def)
  show "prd_B s5 = num_rachas (simbolos_prd (prd_numeros s))" if "prd_numeros s \<noteq> []"
  proof -
    have ne: "prd_simbolos ?s2 \<noteq> []"
      using that by (simp add: sim simbolos_prd_def)
    have "prd_B s5 = prd_B (agrupar_simbolos ?s2)"
      by (simp add: s5_def crear_tabla_def contar_longitudes_def Let_def)
    also have "\<dots> = num_rachas (simbolos_prd (prd_numeros s))"
      using agrupar_simbolos_resultado(2) [OF ne] ne
      by (simp add: sim num_rachas_def length_remdups_adj_filter)
    finally show ?thesis .
  qed
qed

lemma sigma2_nonneg:
  assumes "0 \<le> m1" "0 \<le> m2" "2 \<le> m1 + m2"
  shows "0 \<le> spec_sigma2_B m1 m2"
proof -
  have "0 \<le> real_of_int (2 * m1 * m2 * (2 * m1 * m2 - m1 - m2))"
    using numerador_nonneg [OF assms(1,2)] by (simp only: of_int_0_le_iff)
  moreover have "0 < real_of_int ((m1 + m2)\<^sup>2 * (m1 + m2 - 1))"
    using denominador_pos [OF assms(3)] by (simp only: of_int_0_less_iff)
  ultimately show ?thesis
    unfolding sigma2_forma [symmetric] by (simp only: divide_nonneg_pos)
qed

lemma sigma2_cero:
  assumes "m1 = 0 \<or> m2 = 0 \<or> (m1 = 1 \<and> m2 = 1)"
  shows "spec_sigma2_B m1 m2 = 0"
  using assms by (auto simp: spec_sigma2_B_def)

lemma calcular_estadisticos_ok:
  assumes "0 \<le> prd_n1 s" "0 \<le> prd_n2 s" "2 \<le> prd_n1 s + prd_n2 s"
  shows "calcular_estadisticos nd s =
     (None,
      s\<lparr>prd_mu_B := spec_mu_B (prd_n1 s) (prd_n2 s),
        prd_sigma2_B := spec_sigma2_B (prd_n1 s) (prd_n2 s),
        prd_sigma_B := sqrt (spec_sigma2_B (prd_n1 s) (prd_n2 s)),
        prd_z_prueba :=
          (if sqrt (spec_sigma2_B (prd_n1 s) (prd_n2 s)) \<noteq> 0
           then \<bar>(real_of_int (prd_B s) - spec_mu_B (prd_n1 s) (prd_n2 s))
                  / sqrt (spec_sigma2_B (prd_n1 s) (prd_n2 s))\<bar>
           else 0),
        prd_z_teorico := ppf nd (1 - prd_alpha s / 2),
        prd_p_valor :=
          2 * (1 - cdf nd \<bar>if sqrt (spec_sigma2_B (prd_n1 s) (prd_n2 s)) \<noteq> 0
                            then \<bar>(real_of_int (prd_B s) - spec_mu_B (prd_n1 s) (prd_n2 s))
                                   / sqrt (spec_sigma2_B (prd_n1 s) (prd_n2 s))\<bar>
                            else 0\<bar>)\<rparr>)"
proof -
  let ?m1 = "prd_n1 s" and ?m2 = "prd_n2 s"
  have g1: "?m1 + ?m2 \<noteq> 0"
    using assms(3) by simp
  have g2: "?m1 + ?m2 \<noteq> 1"
    using assms(3) by simp
  have g3: "\<not> spec_sigma2_B ?m1 ?m2 < 0"
    using sigma2_nonneg [OF assms] by simp
  show ?thesis
    unfolding calcular_estadisticos_def Let_def mu_forma sigma2_forma
    using g1 g2 g3 by simp
qed

lemma calcular_estadisticos_falla:
  assumes "0 \<le> prd_n1 s" "0 \<le> prd_n2 s" "prd_n1 s + prd_n2 s \<le> 1"
  shows "fst (calcular_estadisticos nd s) = Some ZeroDivisionError"
    and "prd_alpha (snd (calcular_estadisticos nd s)) = prd_alpha s"
    and "prd_numeros (snd (calcular_estadisticos nd s)) = prd_numeros s"
    and "prd_datos (snd (calcular_estadisticos nd s)) = prd_datos s"
proof -
  have "prd_n1 s + prd_n2 s = 0 \<or> prd_n1 s + prd_n2 s = 1"
    using assms by linarith
  then show "fst (calcular_estadisticos nd s) = Some ZeroDivisionError"
    and "prd_alpha (snd (calcular_estadisticos nd s)) = prd_alpha s"
    and "prd_numeros (snd (calcular_estadisticos nd s)) = prd_numeros s"
    and "prd_datos (snd (calcular_estadisticos nd s)) = prd_datos s"
    by (auto simp: calcular_estadisticos_def Let_def)
qed

text \<open>The state on which \<^verbatim>\<open>_calcular_estadisticos\<close> runs: steps 1 to 5.\<close>

lemma ejecutar_prd_pasos:
  "ejecutar_prd nd s =
     (case calcular_estadisticos nd
             (crear_tabla (contar_longitudes (agrupar_simbolos
                (contar_simbolos (convertir_a_simbolos s))))) of
        (None, s6) \<Rightarrow> (Inr (evaluar_hipotesis s6), s6)
      | (Some e, s6) \<Rightarrow>
          (Inl \<lparr>mensaje = e, err_tipo_prueba = ''Prueba de Rachas'',
                err_alpha = prd_alpha s6\<rparr>, s6))"
  by (simp add: ejecutar_prd_def Let_def)

lemma ejecutar_prd_ok:
  fixes s :: estado_prd
  defines "m1 \<equiv> int (count_list (simbolos_prd (prd_numeros s)) CHR ''+'')"
    and "m2 \<equiv> int (count_list (simbolos_prd (prd_numeros s)) CHR ''-'')"
    and "b \<equiv> num_rachas (simbolos_prd (prd_numeros s))"
  defines "z \<equiv> (if sqrt (spec_sigma2_B m1 m2) \<noteq> 0
                 then \<bar>(real_of_int b - spec_mu_B m1 m2) / sqrt (spec_sigma2_B m1 m2)\<bar>
                 else 0)"
  assumes "2 \<le> length (prd_numeros s)"
  shows "\<exists>r. fst (ejecutar_prd nd s) = Inr r
           \<and> n1 r = m1 \<and> n2 r = m2 \<and> B r = b
           \<and> mu_B r = spec_mu_B m1 m2 \<and> sigma_B r = sqrt (spec_sigma2_B m1 m2)
           \<and> estadistico r = z
           \<and> valor_critico r = ppf nd (1 - prd_alpha s / 2)
           \<and> p_valor r = 2 * (1 - cdf nd \<bar>z\<bar>)
           \<and> rechaza_h0 r = (\<bar>z\<bar> > ppf nd (1 - prd_alpha s / 2))
           \<and> alpha r = prd_alpha s \<and> total_datos r = length (prd_numeros s)
           \<and> prd_sigma_B (snd (ejecutar_prd nd s)) = sqrt (spec_sigma2_B m1 m2)"
proof -
  let ?s5 = "crear_tabla (contar_longitudes (agrupar_simbolos
               (contar_simbolos (convertir_a_simbolos s))))"
  have ne: "prd_numeros s \<noteq> []"
    using assms(5) by auto
  have f: "prd_n1 ?s5 = m1" "prd_n2 ?s5 = m2" "prd_alpha ?s5 = prd_alpha s"
      "prd_numeros ?s5 = prd_numeros s" "prd_B ?s5 = b"
    using pasos_campos [of s] ne by (simp_all add: m1_def m2_def b_def)
  have "m1 + m2 = int (length (prd_numeros s))"
    unfolding m1_def m2_def using count_simbolos_prd [of "prd_numeros s"] by linarith
  then have h: "0 \<le> prd_n1 ?s5" "0 \<le> prd_n2 ?s5" "2 \<le> prd_n1 ?s5 + prd_n2 ?s5"
    using assms(5) by (simp_all add: f m1_def m2_def)
  show ?thesis
    unfolding ejecutar_prd_pasos calcular_estadisticos_ok [OF h] f
    by (simp add: evaluar_hipotesis_def Let_def f z_def)
qed

lemma ejecutar_prd_falla:
  assumes "length (prd_numeros s) \<le> 1"
  shows "fst (ejecutar_prd nd s)
           = Inl \<lparr>mensaje = ZeroDivisionError, err_tipo_prueba = ''Prueba de Rachas'',
                  err_alpha = prd_alpha s\<rparr>"
proof -
  let ?s5 = "crear_tabla (contar_longitudes (agrupar_simbolos
               (contar_simbolos (convertir_a_simbolos s))))"
  have f: "prd_n1 ?s5 = int (count_list (simbolos_prd (prd_numeros s)) CHR ''+'')"
      "prd_n2 ?s5 = int (count_list (simbolos_prd (prd_numeros s)) CHR ''-'')"
      "prd_alpha ?s5 = prd_alpha s"
    using pasos_campos [of s] by simp_all
  have "prd_n1 ?s5 + prd_n2 ?s5 = int (length (prd_numeros s))"
    unfolding f using count_simbolos_prd [of "prd_numeros s"] by linarith
  then have h: "0 \<le> prd_n1 ?s5" "0 \<le> prd_n2 ?s5" "prd_n1 ?s5 + prd_n2 ?s5 \<le> 1"
    using assms by (simp_all add: f)
  obtain e s6 where c: "calcular_estadisticos nd ?s5 = (e, s6)"
    by (cases "calcular_estadisticos nd ?s5")
  from calcular_estadisticos_falla(1,2) [OF h, of nd] c f(3)
  have "e = Some ZeroDivisionError" "prd_alpha s6 = prd_alpha s"
    by simp_all
  then show ?thesis
    unfolding ejecutar_prd_pasos c by simp
qed

lemma ejecutar_prd_conserva:
  "prd_numeros (snd (ejecutar_prd nd s)) = prd_numeros s"
  "prd_datos (snd (ejecutar_prd nd s)) = prd_datos s"
  "prd_alpha (snd (ejecutar_prd nd s)) = prd_alpha s"
proof -
  let ?s5 = "crear_tabla (contar_longitudes (agrupar_simbolos
               (contar_simbolos (convertir_a_simbolos s))))"
  have c: "prd_numeros (snd (calcular_estadisticos nd t)) = prd_numeros t
         \<and> prd_datos (snd (calcular_estadisticos nd t)) = prd_datos t
         \<and> prd_alpha (snd (calcular_estadisticos nd t)) = prd_alpha t" for t
    by (simp add: calcular_estadisticos_def Let_def)
  have e: "snd (ejecutar_prd nd s) = snd (calcular_estadisticos nd ?s5)"
    unfolding ejecutar_prd_pasos by (simp split: prod.splits option.splits)
  show "prd_numeros (snd (ejecutar_prd nd s)) = prd_numeros s"
    "prd_datos (snd (ejecutar_prd nd s)) = prd_datos s"
    "prd_alpha (snd (ejecutar_prd nd s)) = prd_alpha s"
    unfolding e using c [of ?s5] pasos_campos(3,4,5) [of s] by simp_all
qed

subsection \<open>Construct and run\<close>

lemma init_prd_campos:
  "prd_numeros (init_prd datos a) = datos"
  "prd_alpha (init_prd datos a) = a"
  "prd_datos (init_prd datos a) = datos"
  "prd_sigma_B (init_prd datos a) = 0"
  by (simp_all add: init_prd_def)

lemma prueba_renc_formulas:
  fixes datos :: "real list"
  defines "m1 \<equiv> int (count_list (secuencia_red 0.5 datos) CHR ''+'')"
    and "m2 \<equiv> int (count_list (secuencia_red 0.5 datos) CHR ''-'')"
  assumes "1 \<le> m1" "1 \<le> m2" "3 \<le> m1 + m2"
  shows "\<exists>r. prueba_renc nd datos a = Inr r
           \<and> cumple_formulas nd a m1 m2 (num_rachas (secuencia_red 0.5 datos)) r
           \<and> rachas_observadas r = num_rachas (secuencia_red 0.5 datos)
           \<and> rachas_esperadas r = spec_mu_B m1 m2
           \<and> desviacion_estandar r = sqrt (spec_sigma2_B m1 m2)
           \<and> alpha r = a"
proof -
  have "datos \<noteq> []"
    using assms by (auto simp: secuencia_red_def)
  from init_red_campos [OF this, of a] obtain s where
    s: "init_red datos a = Inr s" "red_secuencia s = secuencia_red 0.5 datos"
       "red_n1 s = m1" "red_n2 s = m2" "red_N s = red_n1 s + red_n2 s" "red_alpha s = a"
    unfolding m1_def m2_def by blast
  have h: "1 \<le> red_n1 s" "1 \<le> red_n2 s" "3 \<le> red_n1 s + red_n2 s"
    using assms(3-5) s(3,4) by simp_all
  from ejecutar_red_formulas [OF h s(5), of nd] obtain r where
    r: "ejecutar_red nd s = Inr r"
       "cumple_formulas nd (red_alpha s) (red_n1 s) (red_n2 s) (num_rachas (red_secuencia s)) r"
       "rachas_observadas r = num_rachas (red_secuencia s)"
       "rachas_esperadas r = spec_mu_B (red_n1 s) (red_n2 s)"
       "desviacion_estandar r = sqrt (spec_sigma2_B (red_n1 s) (red_n2 s))"
       "alpha r = red_alpha s"
    by blast
  have "prueba_renc nd datos a = Inr r"
    by (simp add: prueba_renc_def s(1) r(1))
  with r(2-6) show ?thesis
    unfolding s(2,3,4,6) by blast
qed

lemma prueba_prd_resultado:
  fixes datos :: "real list"
  defines "m1 \<equiv> int (count_list (simbolos_prd datos) CHR ''+'')"
    and "m2 \<equiv> int (count_list (simbolos_prd datos) CHR ''-'')"
    and "b \<equiv> num_rachas (simbolos_prd datos)"
  defines "z \<equiv> (if sqrt (spec_sigma2_B m1 m2) \<noteq> 0
                 then \<bar>(real_of_int b - spec_mu_B m1 m2) / sqrt (spec_sigma2_B m1 m2)\<bar>
                 else 0)"
  assumes "2 \<le> length datos"
  shows "\<exists>r. prueba_prd nd datos a = Inr r
           \<and> n1 r = m1 \<and> n2 r = m2 \<and> B r = b
           \<and> mu_B r = spec_mu_B m1 m2 \<and> sigma_B r = sqrt (spec_sigma2_B m1 m2)
           \<and> estadistico r = z
           \<and> valor_critico r = ppf nd (1 - a / 2)
           \<and> p_valor r = 2 * (1 - cdf nd \<bar>z\<bar>)
           \<and> rechaza_h0 r = (\<bar>z\<bar> > ppf nd (1 - a / 2))
           \<and> alpha r = a \<and> total_datos r = length datos
           \<and> prd_sigma_B (snd (ejecutar_prd nd (init_prd datos a))) = sqrt (spec_sigma2_B m1 m2)"
  using ejecutar_prd_ok [of "init_prd datos a" nd] assms(5)
  unfolding prueba_prd_def init_prd_campos m1_def m2_def b_def z_def by simp

lemma prueba_prd_formulas:
  fixes datos :: "real list"
  defines "m1 \<equiv> int (count_list (simbolos_prd datos) CHR ''+'')"
    and "m2 \<equiv> int (count_list (simbolos_prd datos) CHR ''-'')"
  assumes "1 \<le> m1" "1 \<le> m2" "3 \<le> m1 + m2"
  shows "\<exists>r. prueba_prd nd datos a = Inr r
           \<and> cumple_formulas nd a m1 m2 (num_rachas (simbolos_prd datos)) r
           \<and> B r = num_rachas (simbolos_prd datos)
           \<and> mu_B r = spec_mu_B m1 m2
           \<and> sigma_B r = sqrt (spec_sigma2_B m1 m2)
           \<and> alpha r = a"
proof -
  let ?b = "num_rachas (simbolos_prd datos)"
  let ?z = "\<bar>(real_of_int ?b - spec_mu_B m1 m2) / sqrt (spec_sigma2_B m1 m2)\<bar>"
  have "m1 + m2 = int (length datos)"
    unfolding m1_def m2_def using count_simbolos_prd [of datos] by linarith
  then have len: "2 \<le> length datos"
    using assms(5) by linarith
  have pos: "0 < sqrt (spec_sigma2_B m1 m2)"
    using sigma2_pos [OF assms(3-5)] by simp
  from prueba_prd_resultado [OF len, of nd a, folded m1_def m2_def] pos
  obtain r where r: "prueba_prd nd datos a = Inr r" "n1 r = m1" "n2 r = m2" "B r = ?b"
      "mu_B r = spec_mu_B m1 m2" "sigma_B r = sqrt (spec_sigma2_B m1 m2)"
      "estadistico r = ?z" "valor_critico r = ppf nd (1 - a / 2)"
      "p_valor r = 2 * (1 - cdf nd \<bar>?z\<bar>)"
      "rechaza_h0 r = (\<bar>?z\<bar> > ppf nd (1 - a / 2))" "alpha r = a"
    by auto
  have z: "?z = \<bar>real_of_int ?b - spec_mu_B m1 m2\<bar> / sqrt (spec_sigma2_B m1 m2)"
    using pos by (simp add: abs_divide)
  have "cumple_formulas nd a m1 m2 ?b r"
    unfolding cumple_formulas_def using r(2,3,7-10) z by simp
  with r(1,4,5,6,11) show ?thesis by blast
qed

lemma prueba_prd_falla:
  assumes "length datos \<le> 1"
  shows "prueba_prd nd datos a
           = Inl \<lparr>mensaje = ZeroDivisionError, err_tipo_prueba = ''Prueba de Rachas'',
                  err_alpha = a\<rparr>"
  using ejecutar_prd_falla [of "init_prd datos a" nd] assms
  by (simp add: prueba_prd_def init_prd_campos)

lemma count_list_pos_iff: "1 \<le> count_list xs c \<longleftrightarrow> c \<in> set xs"
  using count_list_0_iff [of xs c] by linarith

lemma mas_en_secuencia_red:
  "CHR ''+'' \<in> set (secuencia_red u datos) \<longleftrightarrow> (\<exists>x\<in>set datos. x > u)"
  "CHR ''-'' \<in> set (secuencia_red u datos) \<longleftrightarrow> (\<exists>x\<in>set datos. \<not> x > u)"
  by (auto simp: secuencia_red_def)

lemma mas_en_simbolos_prd:
  "CHR ''+'' \<in> set (simbolos_prd datos) \<longleftrightarrow> (\<exists>x\<in>set datos. x \<ge> 0.5)"
  "CHR ''-'' \<in> set (simbolos_prd datos) \<longleftrightarrow> (\<exists>x\<in>set datos. \<not> x \<ge> 0.5)"
  by (auto simp: simbolos_prd_def)

lemma codificaciones_iguales:
  assumes "0.5 \<notin> set datos"
  shows "secuencia_red 0.5 datos = simbolos_prd datos"
proof -
  have "(x > 0.5) = (x \<ge> 0.5)" if "x \<in> set datos" for x :: real
  proof -
    have "x \<noteq> 0.5"
      using that assms by blast
    then show ?thesis
      by linarith
  qed
  then show ?thesis
    unfolding secuencia_red_def simbolos_prd_def by (intro map_cong) simp_all
qed

lemma prueba_renc_degenerado:
  assumes "datos \<noteq> []"
    and "CHR ''+'' \<notin> set (secuencia_red 0.5 datos) \<or> CHR ''-'' \<notin> set (secuencia_red 0.5 datos)"
  shows "prueba_renc nd datos a = Inl (Dict_error Error_sin_rachas)"
proof -
  from init_red_campos [OF assms(1), of a] obtain s where
    s: "init_red datos a = Inr s"
       "red_n1 s = int (count_list (secuencia_red 0.5 datos) CHR ''+'')"
       "red_n2 s = int (count_list (secuencia_red 0.5 datos) CHR ''-'')"
    by blast
  have "red_n1 s = 0 \<or> red_n2 s = 0"
    using assms(2) by (auto simp: s(2,3) count_list_0_iff)
  then have "ejecutar_red nd s = Inl Error_sin_rachas"
    by (rule ejecutar_red_degenerado)
  then show ?thesis
    by (simp add: prueba_renc_def s(1))
qed

lemma prueba_renc_vacia: "prueba_renc nd [] a = Inl (Lanzada ValueError_vacio)"
  by (simp add: prueba_renc_def init_red_def)

lemma prueba_renc_uno_y_uno:
  assumes "count_list (secuencia_red 0.5 datos) CHR ''+'' = 1"
    and "count_list (secuencia_red 0.5 datos) CHR ''-'' = 1"
  shows "prueba_renc nd datos a = Inl (Dict_error Error_desviacion_cero)"
proof -
  have "datos \<noteq> []"
    using assms by (auto simp: secuencia_red_def)
  from init_red_campos [OF this, of a] obtain s where
    s: "init_red datos a = Inr s" "red_n1 s = 1" "red_n2 s = 1" "red_N s = red_n1 s + red_n2 s"
    using assms by auto
  have "ejecutar_red nd s = Inl Error_desviacion_cero"
    using s(2,3,4) by (intro ejecutar_red_uno_y_uno) simp_all
  then show ?thesis
    by (simp add: prueba_renc_def s(1))
qed

section \<open>The formulas of the runs test\<close>

text \<open>
  Claim C1 says that whenever both symbols occur (\<open>n1 \<ge> 1\<close>, \<open>n2 \<ge> 1\<close>) the test returns
  a result with the fields of the specification. On a sequence with exactly one value on
  each side of the threshold the variance is 0 and \<^verbatim>\<open>rachas_encima_debajo.py\<close> returns
  its error dictionary instead of a result.
\<close>

theorem formulas_contraejemplo:
  "1 \<le> count_list (secuencia_red 0.5 [0.1, 0.9]) CHR ''+''
   \<and> 1 \<le> count_list (secuencia_red 0.5 [0.1, 0.9]) CHR ''-''
   \<and> prueba_renc norm_lineal [0.1, 0.9] 0.05 = Inl (Dict_error Error_desviacion_cero)"
proof -
  have "prueba_renc norm_lineal [0.1, 0.9] 0.05 = Inl (Dict_error Error_desviacion_cero)"
    by (rule prueba_renc_uno_y_uno) (simp_all add: secuencia_red_def simbolos_prd_def)
  then show ?thesis
    by (simp add: secuencia_red_def simbolos_prd_def)
qed

text \<open>
  Claim C1, amended: for every input sequence in which both symbols occur and that has at
  least three values (\<open>n1 \<ge> 1\<close>, \<open>n2 \<ge> 1\<close>, \<open>n1 + n2 \<ge> 3\<close>), both implementations
  return a result with \<open>mu_B = 2 n1 n2 / (n1 + n2) + 1\<close>, standard deviation the root of
  \<open>sigma2_B = 2 n1 n2 (2 n1 n2 - n1 - n2) / ((n1 + n2)\<^sup>2 (n1 + n2 - 1))\<close>, statistic
  \<open>\<bar>B - mu_B\<bar> / sqrt sigma2_B\<close> with \<open>B\<close> the number of maximal runs of the symbol
  sequence, critical value the quantile at \<open>1 - alpha / 2\<close>, p-value
  \<open>2 (1 - \<Phi> \<bar>z\<bar>)\<close>, and rejection exactly when the statistic exceeds the critical
  value. The symbols are those of each implementation's own encoding.
\<close>

theorem formulas_prueba_rachas:
  "(1 \<le> count_list (secuencia_red 0.5 datos) CHR ''+''
      \<and> 1 \<le> count_list (secuencia_red 0.5 datos) CHR ''-'' \<and> 3 \<le> length datos
    \<longrightarrow> (\<exists>r. prueba_renc nd datos a = Inr r
          \<and> cumple_formulas nd a
               (int (count_list (secuencia_red 0.5 datos) CHR ''+''))
               (int (count_list (secuencia_red 0.5 datos) CHR ''-''))
               (num_rachas (secuencia_red 0.5 datos)) r
          \<and> rachas_esperadas r
               = spec_mu_B (int (count_list (secuencia_red 0.5 datos) CHR ''+''))
                   (int (count_list (secuencia_red 0.5 datos) CHR ''-''))
          \<and> desviacion_estandar r
               = sqrt (spec_sigma2_B (int (count_list (secuencia_red 0.5 datos) CHR ''+''))
                   (int (count_list (secuencia_red 0.5 datos) CHR ''-'')))))
   \<and> (1 \<le> count_list (simbolos_prd datos) CHR ''+''
      \<and> 1 \<le> count_list (simbolos_prd datos) CHR ''-'' \<and> 3 \<le> length datos
    \<longrightarrow> (\<exists>r. prueba_prd nd datos a = Inr r
          \<and> cumple_formulas nd a
               (int (count_list (simbolos_prd datos) CHR ''+''))
               (int (count_list (simbolos_prd datos) CHR ''-''))
               (num_rachas (simbolos_prd datos)) r
          \<and> mu_B r
               = spec_mu_B (int (count_list (simbolos_prd datos) CHR ''+''))
                   (int (count_list (simbolos_prd datos) CHR ''-''))
          \<and> sigma_B r
               = sqrt (spec_sigma2_B (int (count_list (simbolos_prd datos) CHR ''+''))
                   (int (count_list (simbolos_prd datos) CHR ''-'')))))"
proof (intro conjI impI)
  assume h: "1 \<le> count_list (secuencia_red 0.5 datos) CHR ''+''
      \<and> 1 \<le> count_list (secuencia_red 0.5 datos) CHR ''-'' \<and> 3 \<le> length datos"
  let ?m1 = "int (count_list (secuencia_red 0.5 datos) CHR ''+'')"
  let ?m2 = "int (count_list (secuencia_red 0.5 datos) CHR ''-'')"
  have "?m1 + ?m2 = int (length datos)"
    using count_secuencia_red [of "0.5" datos] by linarith
  with h have "1 \<le> ?m1" "1 \<le> ?m2" "3 \<le> ?m1 + ?m2"
    by simp_all
  from prueba_renc_formulas [OF this, of nd a]
  show "\<exists>r. prueba_renc nd datos a = Inr r
          \<and> cumple_formulas nd a ?m1 ?m2 (num_rachas (secuencia_red 0.5 datos)) r
          \<and> rachas_esperadas r = spec_mu_B ?m1 ?m2
          \<and> desviacion_estandar r = sqrt (spec_sigma2_B ?m1 ?m2)"
    by blast
next
  assume h: "1 \<le> count_list (simbolos_prd datos) CHR ''+''
      \<and> 1 \<le> count_list (simbolos_prd datos) CHR ''-'' \<and> 3 \<le> length datos"
  let ?m1 = "int (count_list (simbolos_prd datos) CHR ''+'')"
  let ?m2 = "int (count_list (simbolos_prd datos) CHR ''-'')"
  have "?m1 + ?m2 = int (length datos)"
    using count_simbolos_prd [of datos] by linarith
  with h have "1 \<le> ?m1" "1 \<le> ?m2" "3 \<le> ?m1 + ?m2"
    by simp_all
  from prueba_prd_formulas [OF this, of nd a]
  show "\<exists>r. prueba_prd nd datos a = Inr r
          \<and> cumple_formulas nd a ?m1 ?m2 (num_rachas (simbolos_prd datos)) r
          \<and> mu_B r = spec_mu_B ?m1 ?m2
          \<and> sigma_B r = sqrt (spec_sigma2_B ?m1 ?m2)"
    by blast
qed

theorem formulas_prueba_rachas_witness:
  "(\<exists>r. prueba_renc norm_lineal [0.1, 0.9, 0.1] 0.05 = Inr r
        \<and> cumple_formulas norm_lineal 0.05 1 2 3 r
        \<and> rachas_esperadas r = spec_mu_B 1 2
        \<and> desviacion_estandar r = sqrt (spec_sigma2_B 1 2))
   \<and> (\<exists>r. prueba_prd norm_lineal [0.1, 0.9, 0.1] 0.05 = Inr r
        \<and> cumple_formulas norm_lineal 0.05 1 2 3 r
        \<and> mu_B r = spec_mu_B 1 2
        \<and> sigma_B r = sqrt (spec_sigma2_B 1 2))"
  using formulas_prueba_rachas [of "[0.1, 0.9, 0.1]" norm_lineal "0.05"]
  by (simp add: secuencia_red_def simbolos_prd_def num_rachas_def)

section \<open>Degenerate inputs\<close>

lemma prueba_prd_exito: "2 \<le> length datos \<Longrightarrow> \<not> isl (prueba_prd nd datos a)"
  using prueba_prd_resultado [of datos nd a] by auto

lemma prueba_prd_isl: "isl (prueba_prd nd datos a) \<longleftrightarrow> length datos \<le> 1"
proof (cases "length datos \<le> 1")
  case True
  then show ?thesis by (simp add: prueba_prd_falla)
next
  case False
  then show ?thesis using prueba_prd_exito [of datos nd a] by simp
qed

lemma prueba_prd_sigma_cero:
  assumes "2 \<le> length datos"
    and "sqrt (spec_sigma2_B (int (count_list (simbolos_prd datos) CHR ''+''))
                 (int (count_list (simbolos_prd datos) CHR ''-''))) = 0"
  shows "\<exists>r. prueba_prd nd datos a = Inr r \<and> estadistico r = 0
           \<and> p_valor r = 2 * (1 - cdf nd 0)
           \<and> rechaza_h0 r = (0 > ppf nd (1 - a / 2)) \<and> sigma_B r = 0"
  using prueba_prd_resultado [OF assms(1), of nd a] assms(2) by auto

lemma una_clase_sigma_cero:
  assumes "CHR ''+'' \<notin> set (simbolos_prd datos) \<or> CHR ''-'' \<notin> set (simbolos_prd datos)"
  shows "sqrt (spec_sigma2_B (int (count_list (simbolos_prd datos) CHR ''+''))
                 (int (count_list (simbolos_prd datos) CHR ''-''))) = 0"
proof -
  have "int (count_list (simbolos_prd datos) CHR ''+'') = 0
      \<or> int (count_list (simbolos_prd datos) CHR ''-'') = 0"
    using assms by (auto simp: count_list_0_iff)
  then show ?thesis
    using sigma2_cero by auto
qed

text \<open>
  Claim C2 says that a sequence whose symbols all fall in one class makes the runs test
  fail, with no result that carries a made-up statistic. For the constant sequence
  \<open>0.1, 0.1\<close> the class of \<^verbatim>\<open>prueba_rachas_enc_deb.py\<close> returns a result, with
  statistic 0.
\<close>

theorem una_clase_contraejemplo:
  "simbolos_prd [0.1, 0.1] = ''--''
   \<and> \<not> isl (prueba_prd norm_lineal [0.1, 0.1] 0.05)
   \<and> estadistico (projr (prueba_prd norm_lineal [0.1, 0.1] 0.05)) = 0"
proof -
  have s: "simbolos_prd [0.1, 0.1] = ''--''"
    by (simp add: simbolos_prd_def)
  have "sqrt (spec_sigma2_B (int (count_list (simbolos_prd [0.1, 0.1]) CHR ''+''))
                 (int (count_list (simbolos_prd [0.1, 0.1]) CHR ''-''))) = 0"
    by (rule una_clase_sigma_cero) (simp add: s)
  from prueba_prd_sigma_cero [OF _ this, of norm_lineal "0.05"] s
  show ?thesis by auto
qed

text \<open>
  Claim C2, amended: for every input sequence whose symbols all fall in one class, the
  runs test of \<^verbatim>\<open>rachas_encima_debajo.py\<close> fails before it computes the expected runs,
  the variance or the statistic, and returns no result: the constructor raises on the empty
  sequence, and \<^verbatim>\<open>ejecutar\<close> returns its error dictionary on every other one. The class
  of \<^verbatim>\<open>prueba_rachas_enc_deb.py\<close> fails on such a sequence exactly when it has at most
  one value.
\<close>

theorem una_clase_falla:
  "((\<forall>x\<in>set datos. x > 0.5) \<or> (\<forall>x\<in>set datos. \<not> x > 0.5)
     \<longrightarrow> prueba_renc nd datos a
           = Inl (if datos = [] then Lanzada ValueError_vacio else Dict_error Error_sin_rachas))
   \<and> ((\<forall>x\<in>set datos. x \<ge> 0.5) \<or> (\<forall>x\<in>set datos. \<not> x \<ge> 0.5)
     \<longrightarrow> (isl (prueba_prd nd datos a) \<longleftrightarrow> length datos \<le> 1))"
proof (intro conjI impI)
  assume h: "(\<forall>x\<in>set datos. x > 0.5) \<or> (\<forall>x\<in>set datos. \<not> x > 0.5)"
  show "prueba_renc nd datos a
          = Inl (if datos = [] then Lanzada ValueError_vacio else Dict_error Error_sin_rachas)"
  proof (cases "datos = []")
    case True
    then show ?thesis by (simp add: prueba_renc_vacia)
  next
    case False
    have "CHR ''+'' \<notin> set (secuencia_red 0.5 datos) \<or> CHR ''-'' \<notin> set (secuencia_red 0.5 datos)"
      using h unfolding mas_en_secuencia_red by blast
    from prueba_renc_degenerado [OF False this] False show ?thesis by simp
  qed
next
  show "isl (prueba_prd nd datos a) \<longleftrightarrow> length datos \<le> 1"
    by (rule prueba_prd_isl)
qed

theorem una_clase_falla_witness:
  "prueba_renc norm_lineal [0.1, 0.1, 0.1] 0.05 = Inl (Dict_error Error_sin_rachas)
   \<and> \<not> isl (prueba_prd norm_lineal [0.1, 0.1, 0.1] 0.05)"
  using una_clase_falla [of "[0.1, 0.1, 0.1]" norm_lineal "0.05"] by simp

text \<open>
  Claim C10 says that in \<^verbatim>\<open>prueba_rachas_enc_deb.py\<close>, when the standard deviation
  computed is 0, \<^verbatim>\<open>ejecutar\<close> returns a result with statistic 0, p-value 1 and no
  rejection. Alpha is not validated, and the decision compares the statistic 0 with the
  quantile at \<open>1 - alpha / 2\<close>: at \<open>alpha = 1.5\<close> that quantile is negative and the
  constant sequence \<open>0.7, 0.7\<close> is rejected.
\<close>

theorem desviacion_cero_contraejemplo:
  "\<not> isl (prueba_prd norm_lineal [0.7, 0.7] 1.5)
   \<and> sigma_B (projr (prueba_prd norm_lineal [0.7, 0.7] 1.5)) = 0
   \<and> estadistico (projr (prueba_prd norm_lineal [0.7, 0.7] 1.5)) = 0
   \<and> rechaza_h0 (projr (prueba_prd norm_lineal [0.7, 0.7] 1.5))"
proof -
  have "sqrt (spec_sigma2_B (int (count_list (simbolos_prd [0.7, 0.7]) CHR ''+''))
                 (int (count_list (simbolos_prd [0.7, 0.7]) CHR ''-''))) = 0"
    by (rule una_clase_sigma_cero) (simp add: simbolos_prd_def)
  from prueba_prd_sigma_cero [OF _ this, of norm_lineal "1.5"]
  show ?thesis by (auto simp: norm_lineal_def)
qed

text \<open>
  Claim C10, amended: in \<^verbatim>\<open>prueba_rachas_enc_deb.py\<close>, when the standard deviation
  computed is 0, as it is for a sequence of at least two values whose symbols all fall in
  one class, \<^verbatim>\<open>ejecutar\<close> does not fail: it returns a result with statistic 0 and
  p-value \<open>2 (1 - \<Phi> 0)\<close>, which is 1 when the distribution function is \<open>1/2\<close> at 0,
  and it rejects exactly when the quantile at \<open>1 - alpha / 2\<close> is negative; so there is no
  rejection whenever that quantile is not negative, as for every alpha of at most 1.
\<close>

theorem desviacion_cero_prd:
  assumes "2 \<le> length datos"
    and "(\<forall>x\<in>set datos. x \<ge> 0.5) \<or> (\<forall>x\<in>set datos. \<not> x \<ge> 0.5)
         \<or> prd_sigma_B (snd (ejecutar_prd nd (init_prd datos a))) = 0"
  shows "\<exists>r. prueba_prd nd datos a = Inr r
           \<and> sigma_B r = 0 \<and> estadistico r = 0
           \<and> p_valor r = 2 * (1 - cdf nd 0)
           \<and> rechaza_h0 r = (ppf nd (1 - a / 2) < 0)
           \<and> (cdf nd 0 = 1 / 2 \<longrightarrow> p_valor r = 1)
           \<and> (0 \<le> ppf nd (1 - a / 2) \<longrightarrow> \<not> rechaza_h0 r)"
proof -
  let ?sg = "sqrt (spec_sigma2_B (int (count_list (simbolos_prd datos) CHR ''+''))
                     (int (count_list (simbolos_prd datos) CHR ''-'')))"
  have "?sg = 0"
  proof (cases "prd_sigma_B (snd (ejecutar_prd nd (init_prd datos a))) = 0")
    case True
    then show ?thesis
      using prueba_prd_resultado [OF assms(1), of nd a] by auto
  next
    case False
    with assms(2) have "CHR ''+'' \<notin> set (simbolos_prd datos) \<or> CHR ''-'' \<notin> set (simbolos_prd datos)"
      unfolding mas_en_simbolos_prd by blast
    then show ?thesis
      by (rule una_clase_sigma_cero)
  qed
  from prueba_prd_sigma_cero [OF assms(1) this, of nd a]
  show ?thesis by auto
qed

theorem desviacion_cero_prd_witness:
  "\<exists>r. prueba_prd norm_lineal [0.7, 0.7] 0.05 = Inr r
         \<and> sigma_B r = 0 \<and> estadistico r = 0 \<and> p_valor r = 1 \<and> \<not> rechaza_h0 r"
  using desviacion_cero_prd [of "[0.7, 0.7]" norm_lineal "0.05"]
  by (auto simp: norm_lineal_def)

section \<open>The two implementations side by side\<close>

text \<open>
  Claim C3 says that on every sequence of length at least 2 with no value equal to 0.5 and
  with values on both sides of it, the two implementations return the same statistic,
  critical value, p-value and decision. On \<open>0.2, 0.7\<close> the class of
  \<^verbatim>\<open>rachas_encima_debajo.py\<close> returns its error dictionary and the class of
  \<^verbatim>\<open>prueba_rachas_enc_deb.py\<close> a result with statistic 0.
\<close>

theorem equivalencia_contraejemplo:
  "0.5 \<notin> set [0.2, 0.7 :: real]
   \<and> prueba_renc norm_lineal [0.2, 0.7] 0.05 = Inl (Dict_error Error_desviacion_cero)
   \<and> \<not> isl (prueba_prd norm_lineal [0.2, 0.7] 0.05)
   \<and> estadistico (projr (prueba_prd norm_lineal [0.2, 0.7] 0.05)) = 0"
proof -
  have r: "prueba_renc norm_lineal [0.2, 0.7] 0.05 = Inl (Dict_error Error_desviacion_cero)"
    by (rule prueba_renc_uno_y_uno) (simp_all add: secuencia_red_def)
  have "spec_sigma2_B (int (count_list (simbolos_prd [0.2, 0.7]) CHR ''+''))
                 (int (count_list (simbolos_prd [0.2, 0.7]) CHR ''-'')) = 0"
    by (rule sigma2_cero) (simp add: simbolos_prd_def)
  then have "sqrt (spec_sigma2_B (int (count_list (simbolos_prd [0.2, 0.7]) CHR ''+''))
                 (int (count_list (simbolos_prd [0.2, 0.7]) CHR ''-''))) = 0"
    by simp
  from prueba_prd_sigma_cero [OF _ this, of norm_lineal "0.05"] r
  show ?thesis by auto
qed

text \<open>
  Claim C3, amended: on every sequence of length at least 3 with no value equal to 0.5, at
  least one value above it and at least one below, both implementations return a result,
  and the two results have the same statistic, critical value, p-value and decision (and
  the same symbol counts, number of runs, expected runs and standard deviation).
\<close>

theorem implementaciones_equivalentes:
  assumes "3 \<le> length datos" and "0.5 \<notin> set datos"
    and "\<exists>x\<in>set datos. x > 0.5" and "\<exists>x\<in>set datos. x < 0.5"
  shows "\<exists>r1 r2. prueba_renc nd datos a = Inr r1 \<and> prueba_prd nd datos a = Inr r2
           \<and> estadistico r1 = estadistico r2 \<and> valor_critico r1 = valor_critico r2
           \<and> p_valor r1 = p_valor r2 \<and> rechaza_h0 r1 = rechaza_h0 r2
           \<and> n1 r1 = n1 r2 \<and> n2 r1 = n2 r2 \<and> rachas_observadas r1 = B r2
           \<and> rachas_esperadas r1 = mu_B r2 \<and> desviacion_estandar r1 = sigma_B r2"
proof -
  let ?sec = "simbolos_prd datos"
  let ?m1 = "int (count_list ?sec CHR ''+'')"
  let ?m2 = "int (count_list ?sec CHR ''-'')"
  have e: "secuencia_red 0.5 datos = ?sec"
    using assms(2) by (rule codificaciones_iguales)
  have "CHR ''+'' \<in> set ?sec" "CHR ''-'' \<in> set ?sec"
    using assms(3,4) unfolding mas_en_simbolos_prd by force+
  then have "1 \<le> count_list ?sec CHR ''+''" "1 \<le> count_list ?sec CHR ''-''"
    by (simp_all only: count_list_pos_iff)
  moreover have "?m1 + ?m2 = int (length datos)"
    using count_simbolos_prd [of datos] by linarith
  ultimately have h: "1 \<le> ?m1" "1 \<le> ?m2" "3 \<le> ?m1 + ?m2"
    using assms(1) by simp_all
  from prueba_renc_formulas [of datos nd a, unfolded e, OF h] obtain r1 where
    r1: "prueba_renc nd datos a = Inr r1" "cumple_formulas nd a ?m1 ?m2 (num_rachas ?sec) r1"
      "rachas_observadas r1 = num_rachas ?sec" "rachas_esperadas r1 = spec_mu_B ?m1 ?m2"
      "desviacion_estandar r1 = sqrt (spec_sigma2_B ?m1 ?m2)"
    by blast
  from prueba_prd_formulas [OF h, of nd a] obtain r2 where
    r2: "prueba_prd nd datos a = Inr r2" "cumple_formulas nd a ?m1 ?m2 (num_rachas ?sec) r2"
      "B r2 = num_rachas ?sec" "mu_B r2 = spec_mu_B ?m1 ?m2"
      "sigma_B r2 = sqrt (spec_sigma2_B ?m1 ?m2)"
    by blast
  have "estadistico r1 = estadistico r2 \<and> valor_critico r1 = valor_critico r2
           \<and> p_valor r1 = p_valor r2 \<and> rechaza_h0 r1 = rechaza_h0 r2
           \<and> n1 r1 = n1 r2 \<and> n2 r1 = n2 r2"
    using r1(2) r2(2) by (simp add: cumple_formulas_def)
  with r1(1,3,4,5) r2(1,3,4,5) show ?thesis
    by simp
qed

theorem implementaciones_equivalentes_witness:
  "\<exists>r1 r2. prueba_renc norm_lineal [0.2, 0.7, 0.3] 0.05 = Inr r1
         \<and> prueba_prd norm_lineal [0.2, 0.7, 0.3] 0.05 = Inr r2
         \<and> estadistico r1 = estadistico r2 \<and> valor_critico r1 = valor_critico r2
         \<and> p_valor r1 = p_valor r2 \<and> rechaza_h0 r1 = rechaza_h0 r2
         \<and> n1 r1 = n1 r2 \<and> n2 r1 = n2 r2 \<and> rachas_observadas r1 = B r2
         \<and> rachas_esperadas r1 = mu_B r2 \<and> desviacion_estandar r1 = sigma_B r2"
  using implementaciones_equivalentes [of "[0.2, 0.7, 0.3]" norm_lineal "0.05"]
  by simp

section \<open>Empty input and the significance level\<close>

text \<open>
  Claim C6 says that on the empty sequence a test invocation fails with an error for the
  empty input, detected before any statistic is computed. The class of
  \<^verbatim>\<open>prueba_rachas_enc_deb.py\<close> has no check for emptiness: on the empty sequence its
  failure is the division by zero raised while it computes \<open>mu_B\<close>, the very error
  dictionary it returns on a sequence of one value.
\<close>

theorem entrada_vacia_contraejemplo:
  "prueba_prd norm_lineal [] 0.05
     = Inl \<lparr>mensaje = ZeroDivisionError, err_tipo_prueba = ''Prueba de Rachas'',
            err_alpha = 0.05\<rparr>
   \<and> mensaje (projl (prueba_prd norm_lineal [] 0.05)) \<noteq> ValueError_vacio
   \<and> prueba_prd norm_lineal [0.7] 0.05 = prueba_prd norm_lineal [] 0.05"
  by (simp add: prueba_prd_falla)

text \<open>
  Claim C6, amended: on the empty sequence no invocation returns a result. The constructor
  of \<^verbatim>\<open>rachas_encima_debajo.py\<close> raises its \<^verbatim>\<open>ValueError\<close> for the empty data set
  before anything is computed. The \<^verbatim>\<open>ejecutar\<close> of \<^verbatim>\<open>prueba_rachas_enc_deb.py\<close> does
  not detect the empty input: it returns its error dictionary, made from the division by
  zero raised at \<open>mu_B\<close>, the first statistic it attempts, and that dictionary is the
  one a sequence of a single value gets.
\<close>

theorem entrada_vacia:
  "init_red [] a = Inl ValueError_vacio
   \<and> prueba_renc nd [] a = Inl (Lanzada ValueError_vacio)
   \<and> prueba_prd nd [] a
       = Inl \<lparr>mensaje = ZeroDivisionError, err_tipo_prueba = ''Prueba de Rachas'',
              err_alpha = a\<rparr>
   \<and> prueba_prd nd [x] a = prueba_prd nd [] a"
  by (simp add: init_red_def prueba_renc_vacia prueba_prd_falla)

lemma prueba_renc_isl:
  "isl (prueba_renc nd datos a) = isl (prueba_renc nd' datos a')"
  by (simp add: prueba_renc_def init_red_def ejecutar_red_def Let_def)

lemma prueba_renc_alpha:
  assumes "prueba_renc nd datos a = Inr r"
  shows "alpha r = a \<and> valor_critico r = ppf nd (1 - a / 2)"
proof -
  from assms obtain s where s: "init_red datos a = Inr s" "ejecutar_red nd s = Inr r"
    by (auto simp: prueba_renc_def split: sum.splits)
  from s(1) have "red_alpha s = a"
    by (auto simp: init_red_def Let_def split: if_splits)
  moreover from s(2) have "alpha r = red_alpha s \<and> valor_critico r = ppf nd (1 - red_alpha s / 2)"
    by (auto simp: ejecutar_red_def Let_def split: if_splits)
  ultimately show ?thesis by simp
qed

lemma prueba_prd_alpha:
  assumes "prueba_prd nd datos a = Inr r"
  shows "alpha r = a \<and> valor_critico r = ppf nd (1 - a / 2)"
proof -
  have "\<not> length datos \<le> 1"
    using assms prueba_prd_isl [of nd datos a] by auto
  then have "2 \<le> length datos" by simp
  from prueba_prd_resultado [OF this, of nd a] assms show ?thesis
    by auto
qed

text \<open>
  Claim C7 says that an alpha outside the open interval \<open>(0, 1)\<close> makes the invocation
  fail. With \<open>alpha = 2\<close> both implementations return a result.
\<close>

theorem alpha_contraejemplo:
  "\<not> isl (prueba_renc norm_lineal [0.1, 0.9, 0.1] 2)
   \<and> alpha (projr (prueba_renc norm_lineal [0.1, 0.9, 0.1] 2)) = 2
   \<and> \<not> isl (prueba_prd norm_lineal [0.1, 0.9, 0.1] 2)
   \<and> alpha (projr (prueba_prd norm_lineal [0.1, 0.9, 0.1] 2)) = 2"
proof -
  have "1 \<le> int (count_list (secuencia_red 0.5 [0.1, 0.9, 0.1]) CHR ''+'')"
    "1 \<le> int (count_list (secuencia_red 0.5 [0.1, 0.9, 0.1]) CHR ''-'')"
    "3 \<le> int (count_list (secuencia_red 0.5 [0.1, 0.9, 0.1]) CHR ''+'')
         + int (count_list (secuencia_red 0.5 [0.1, 0.9, 0.1]) CHR ''-'')"
    by (simp_all add: secuencia_red_def)
  from prueba_renc_formulas [OF this, of norm_lineal 2]
  obtain r where "prueba_renc norm_lineal [0.1, 0.9, 0.1] 2 = Inr r" "alpha r = 2"
    by blast
  moreover from prueba_prd_resultado [of "[0.1, 0.9, 0.1]" norm_lineal 2]
  obtain r' where "prueba_prd norm_lineal [0.1, 0.9, 0.1] 2 = Inr r'" "alpha r' = 2"
    by auto
  ultimately show ?thesis by simp
qed

text \<open>
  Claim C7, amended: no implementation validates alpha. Whether an invocation fails or
  returns a result is the same for every alpha, inside \<open>(0, 1)\<close> or not (and for every
  normal distribution passed); a result returned carries the alpha it was given and takes
  the quantile at \<open>1 - alpha / 2\<close> as critical value.
\<close>

theorem alpha_no_validada:
  "isl (prueba_renc nd datos a) = isl (prueba_renc nd' datos a')
   \<and> isl (prueba_prd nd datos a) = isl (prueba_prd nd' datos a')
   \<and> (\<forall>r. prueba_renc nd datos a = Inr r
          \<longrightarrow> alpha r = a \<and> valor_critico r = ppf nd (1 - a / 2))
   \<and> (\<forall>r. prueba_prd nd datos a = Inr r
          \<longrightarrow> alpha r = a \<and> valor_critico r = ppf nd (1 - a / 2))"
  using prueba_renc_isl [of nd datos a nd' a'] prueba_renc_alpha [of nd datos a]
    prueba_prd_alpha [of nd datos a]
  by (simp add: prueba_prd_isl)

theorem alpha_no_validada_witness:
  "isl (prueba_renc norm_lineal [0.1, 0.9, 0.1] 2) = isl (prueba_renc norm_lineal [0.1, 0.9, 0.1] 0.05)
   \<and> isl (prueba_prd norm_lineal [0.1, 0.9, 0.1] 2) = isl (prueba_prd norm_lineal [0.1, 0.9, 0.1] 0.05)
   \<and> alpha (projr (prueba_renc norm_lineal [0.1, 0.9, 0.1] 2)) = 2
   \<and> valor_critico (projr (prueba_renc norm_lineal [0.1, 0.9, 0.1] 2)) = - 2
   \<and> alpha (projr (prueba_prd norm_lineal [0.1, 0.9, 0.1] 2)) = 2
   \<and> valor_critico (projr (prueba_prd norm_lineal [0.1, 0.9, 0.1] 2)) = - 2"
proof -
  have "\<not> isl (prueba_renc norm_lineal [0.1, 0.9, 0.1] 2)"
    by (simp add: prueba_renc_def init_red_def ejecutar_red_def Let_def secuencia_red_def)
  then have r: "prueba_renc norm_lineal [0.1, 0.9, 0.1] 2
                  = Inr (projr (prueba_renc norm_lineal [0.1, 0.9, 0.1] 2))"
    by simp
  have "\<not> isl (prueba_prd norm_lineal [0.1, 0.9, 0.1] 2)"
    by (rule prueba_prd_exito) simp
  then have p: "prueba_prd norm_lineal [0.1, 0.9, 0.1] 2
                  = Inr (projr (prueba_prd norm_lineal [0.1, 0.9, 0.1] 2))"
    by simp
  show ?thesis
    using alpha_no_validada [of norm_lineal "[0.1, 0.9, 0.1]" 2 norm_lineal "0.05"] r p
    by (simp add: norm_lineal_def)
qed

section \<open>Purity\<close>

lemma resultado_depende:
  assumes "prd_n1 t = prd_n1 t'" "prd_n2 t = prd_n2 t'" "prd_alpha t = prd_alpha t'"
    and "prd_numeros t = prd_numeros t'"
    and "prd_n1 t + prd_n2 t \<noteq> 0 \<longrightarrow> prd_B t = prd_B t'"
  shows "fst (case calcular_estadisticos nd t of
                (None, s6) \<Rightarrow> (Inr (evaluar_hipotesis s6), s6)
              | (Some e, s6) \<Rightarrow>
                  (Inl \<lparr>mensaje = e, err_tipo_prueba = ''Prueba de Rachas'',
                        err_alpha = prd_alpha s6\<rparr>, s6))
       = fst (case calcular_estadisticos nd t' of
                (None, s6) \<Rightarrow> (Inr (evaluar_hipotesis s6), s6)
              | (Some e, s6) \<Rightarrow>
                  (Inl \<lparr>mensaje = e, err_tipo_prueba = ''Prueba de Rachas'',
                        err_alpha = prd_alpha s6\<rparr>, s6))"
proof (cases "prd_n1 t + prd_n2 t = 0")
  case True
  then show ?thesis
    using assms(1-4) by (simp add: calcular_estadisticos_def Let_def)
next
  case False
  with assms(5) have "prd_B t = prd_B t'" by simp
  with assms(1-4) show ?thesis
    by (simp add: calcular_estadisticos_def Let_def evaluar_hipotesis_def)
qed

text \<open>
  Claim C8: an invocation is a function of the sample sequence and alpha alone, and does
  not change the sequence. In \<^verbatim>\<open>prueba_rachas_enc_deb.py\<close>, where \<^verbatim>\<open>ejecutar\<close> assigns
  to the fields of the object, two objects that hold the same sequence and the same alpha
  give the same result whatever their other fields hold (a fresh object, or one that has
  run before), and \<^verbatim>\<open>ejecutar\<close> leaves the data, the sequence and alpha as they were.
  In \<^verbatim>\<open>rachas_encima_debajo.py\<close> \<^verbatim>\<open>ejecutar\<close> assigns to no field: the result is a
  function of the object the constructor built from the sequence and alpha.
\<close>

theorem ejecutar_puro:
  assumes "prd_numeros s = prd_numeros s'" and "prd_alpha s = prd_alpha s'"
  shows "fst (ejecutar_prd nd s) = fst (ejecutar_prd nd s')
       \<and> prd_numeros (snd (ejecutar_prd nd s)) = prd_numeros s
       \<and> prd_datos (snd (ejecutar_prd nd s)) = prd_datos s
       \<and> prd_alpha (snd (ejecutar_prd nd s)) = prd_alpha s
       \<and> (init_red datos a = Inr t \<longrightarrow> red_datos t = datos \<and> red_alpha t = a)"
proof -
  let ?p = "\<lambda>s. crear_tabla (contar_longitudes (agrupar_simbolos
               (contar_simbolos (convertir_a_simbolos s))))"
  have c: "prd_n1 (?p s) + prd_n2 (?p s) = int (length (prd_numeros s))"
    unfolding pasos_campos using count_simbolos_prd [of "prd_numeros s"] by linarith
  have b: "prd_n1 (?p s) + prd_n2 (?p s) \<noteq> 0 \<longrightarrow> prd_B (?p s) = prd_B (?p s')"
  proof
    assume "prd_n1 (?p s) + prd_n2 (?p s) \<noteq> 0"
    with c have "prd_numeros s \<noteq> []" by auto
    then show "prd_B (?p s) = prd_B (?p s')"
      using pasos_campos(6) [of s] pasos_campos(6) [of s'] assms(1) by simp
  qed
  have "fst (ejecutar_prd nd s) = fst (ejecutar_prd nd s')"
    unfolding ejecutar_prd_pasos
    by (rule resultado_depende) (simp_all add: pasos_campos assms b)
  moreover have "init_red datos a = Inr t \<longrightarrow> red_datos t = datos \<and> red_alpha t = a"
    by (auto simp: init_red_def Let_def split: if_splits)
  ultimately show ?thesis
    by (simp add: ejecutar_prd_conserva)
qed

theorem ejecutar_puro_witness:
  "fst (ejecutar_prd norm_lineal (snd (ejecutar_prd norm_lineal (init_prd [0.1, 0.9, 0.1] 0.05))))
     = fst (ejecutar_prd norm_lineal (init_prd [0.1, 0.9, 0.1] 0.05))
   \<and> prd_numeros (snd (ejecutar_prd norm_lineal (init_prd [0.1, 0.9, 0.1] 0.05))) = [0.1, 0.9, 0.1]
   \<and> prd_grupos (snd (ejecutar_prd norm_lineal (init_prd [0.1, 0.9, 0.1] 0.05)))
       \<noteq> prd_grupos (init_prd [0.1, 0.9, 0.1] 0.05)"
proof -
  let ?s = "init_prd [0.1, 0.9, 0.1] 0.05"
  have g: "prd_grupos (snd (ejecutar_prd norm_lineal ?s)) \<noteq> prd_grupos ?s"
    by (simp add: ejecutar_prd_def Let_def init_prd_def convertir_a_simbolos_def
          simbolos_prd_def contar_simbolos_def agrupar_simbolos_def agrupar_paso_def
          contar_longitudes_def crear_tabla_def calcular_estadisticos_def
          split: prod.splits option.splits)
  show ?thesis
    using ejecutar_puro [of "snd (ejecutar_prd norm_lineal ?s)" ?s norm_lineal "[0.1, 0.9, 0.1]" "0.05"
        "projr (init_red [0.1, 0.9, 0.1] 0.05)"] g
    by (simp add: ejecutar_prd_conserva init_prd_campos)
qed

section \<open>The alternating sequence\<close>

lemma codificar_alternante:
  "secuencia_red 0.5 (alternante n) = map (\<lambda>i. if even i then CHR ''-'' else CHR ''+'') [0..<n]"
  "simbolos_prd (alternante n) = map (\<lambda>i. if even i then CHR ''-'' else CHR ''+'') [0..<n]"
  by (simp_all add: secuencia_red_def simbolos_prd_def alternante_def)

lemma contar_alternante:
  "count_list (map (\<lambda>i. if even i then CHR ''-'' else CHR ''+'') [0..<n]) CHR ''+'' = n div 2
   \<and> count_list (map (\<lambda>i. if even i then CHR ''-'' else CHR ''+'') [0..<n]) CHR ''-''
       = (n + 1) div 2"
proof (induction n)
  case 0
  show ?case by simp
next
  case (Suc n)
  then show ?case by (cases "even n") auto
qed

lemma rachas_alternante:
  assumes "0 < n"
  shows "num_rachas (map (\<lambda>i. if even i then CHR ''-'' else CHR ''+'') [0..<n]) = int n"
proof -
  let ?sec = "map (\<lambda>i. if even i then CHR ''-'' else CHR ''+'') [0..<n]"
  have "?sec ! i \<noteq> ?sec ! (i - 1)" if "i \<in> set [1..<length ?sec]" for i
  proof -
    from that have i: "0 < i" "i < n" by simp_all
    then have "even i \<noteq> even (i - 1)" by (cases i) simp_all
    with i show ?thesis by auto
  qed
  then have "\<forall>i\<in>set [1..<length ?sec]. ?sec ! i \<noteq> ?sec ! (i - 1)"
    by blast
  then have f: "filter (\<lambda>i. ?sec ! i \<noteq> ?sec ! (i - 1)) [1..<length ?sec] = [1..<length ?sec]"
    by (rule filter_True)
  have "?sec \<noteq> []"
    using assms by simp
  from length_remdups_adj_filter [OF this]
  have "length (remdups_adj ?sec) = 1 + length [1..<length ?sec]"
    unfolding f .
  then show ?thesis
    using assms by (simp add: num_rachas_def)
qed

lemma estadistico_alternante:
  "9.8 < \<bar>real_of_int 100 - spec_mu_B 50 50\<bar> / sqrt (spec_sigma2_B 50 50)"
proof -
  have mu: "spec_mu_B 50 50 = 51"
    by (simp add: spec_mu_B_def)
  have sg: "spec_sigma2_B 50 50 = 2450 / 99"
    by (simp add: spec_sigma2_B_def)
  have "sqrt (2450 / 99) < sqrt 25"
    by (simp only: real_sqrt_less_iff)
  then have lt: "sqrt (2450 / 99) < 5"
    by simp
  have pos: "0 < sqrt (2450 / 99 :: real)"
    by simp
  have "49 / 5 < 49 / sqrt (2450 / 99 :: real)"
    using lt pos by (simp add: field_simps)
  then show ?thesis
    unfolding mu sg by simp
qed

text \<open>
  Claim C5: on the alternating sequence \<open>0.1, 0.9, 0.1, 0.9, ...\<close> of length 100 at
  \<open>alpha = 0.05\<close>, the runs test finds \<open>n1 = 50\<close>, \<open>n2 = 50\<close> and 100 runs, as many as
  the sequence has values, and rejects the null hypothesis. The statistic is
  \<open>49 / sqrt (2450 / 99)\<close>, above 9.8; the decision needs the quantile of the normal
  distribution at \<open>0.975\<close> to be at most that (scipy's is 1.96).
\<close>

theorem secuencia_alternante:
  assumes "ppf nd (1 - 0.05 / 2) \<le> 9.8"
  shows "length (alternante 100) = 100
       \<and> (\<exists>r. prueba_renc nd (alternante 100) 0.05 = Inr r
             \<and> n1 r = 50 \<and> n2 r = 50 \<and> rachas_observadas r = 100 \<and> rechaza_h0 r)
       \<and> (\<exists>r. prueba_prd nd (alternante 100) 0.05 = Inr r
             \<and> n1 r = 50 \<and> n2 r = 50 \<and> B r = 100 \<and> rechaza_h0 r)"
proof -
  let ?sec = "map (\<lambda>i. if even i then CHR ''-'' else CHR ''+'') [0..<100]"
  have c: "int (count_list ?sec CHR ''+'') = 50" "int (count_list ?sec CHR ''-'') = 50"
    using contar_alternante [of 100] by simp_all
  have b: "num_rachas ?sec = 100"
    using rachas_alternante [of 100] by simp
  have h: "1 \<le> int (count_list ?sec CHR ''+'')" "1 \<le> int (count_list ?sec CHR ''-'')"
    "3 \<le> int (count_list ?sec CHR ''+'') + int (count_list ?sec CHR ''-'')"
    unfolding c by simp_all
  have z: "ppf nd (1 - 0.05 / 2) < \<bar>real_of_int 100 - spec_mu_B 50 50\<bar> / sqrt (spec_sigma2_B 50 50)"
    using assms estadistico_alternante by linarith
  from prueba_renc_formulas [of "alternante 100" nd "0.05", unfolded codificar_alternante, OF h]
  obtain r1 where r1: "prueba_renc nd (alternante 100) 0.05 = Inr r1"
      "cumple_formulas nd 0.05 50 50 100 r1" "rachas_observadas r1 = 100"
    unfolding c b by blast
  from prueba_prd_formulas [of "alternante 100" nd "0.05", unfolded codificar_alternante, OF h]
  obtain r2 where r2: "prueba_prd nd (alternante 100) 0.05 = Inr r2"
      "cumple_formulas nd 0.05 50 50 100 r2" "B r2 = 100"
    unfolding c b by blast
  have "n1 r1 = 50 \<and> n2 r1 = 50 \<and> rechaza_h0 r1"
    using r1(2) z unfolding cumple_formulas_def by simp
  moreover have "n1 r2 = 50 \<and> n2 r2 = 50 \<and> rechaza_h0 r2"
    using r2(2) z unfolding cumple_formulas_def by simp
  moreover have "length (alternante 100) = 100"
    by (simp add: alternante_def)
  ultimately show ?thesis
    using r1(1,3) r2(1,3) by simp
qed

theorem secuencia_alternante_witness:
  "length (alternante 100) = 100
   \<and> (\<exists>r. prueba_renc norm_lineal (alternante 100) 0.05 = Inr r
         \<and> n1 r = 50 \<and> n2 r = 50 \<and> rachas_observadas r = 100 \<and> rechaza_h0 r)
   \<and> (\<exists>r. prueba_prd norm_lineal (alternante 100) 0.05 = Inr r
         \<and> n1 r = 50 \<and> n2 r = 50 \<and> B r = 100 \<and> rechaza_h0 r)"
proof -
  have "ppf norm_lineal (1 - 0.05 / 2) \<le> 9.8"
    by (simp add: norm_lineal_def)
  then show ?thesis
    by (rule secuencia_alternante)
qed

end
